theory Spec2Isabelle
  imports Complex_Main
begin

section \<open>Potential-flow formula library \<^verbatim>\<open>aero_functions.py\<close>\<close>

subsection \<open>Float arithmetic\<close>

text \<open>
  The arrays of the program hold IEEE doubles, and every number the evaluators return is
  the result of numpy's operations on doubles: rounded, overflowing to an infinity,
  underflowing to a zero, with two zeros of opposite sign. That arithmetic belongs to numpy
  and to the hardware, not to this repository, so it is a parameter of the model: a type
  \<open>'f\<close> of float values and a record \<open>F\<close> of the operations the source uses on them. What
  is proved of an evaluator for every \<open>F\<close> holds of the program on doubles; where a
  property needs a fact of IEEE arithmetic, the fact is a stated hypothesis on \<open>F\<close>.

  \<open>fnat\<close> is the double of a natural number (the literals \<open>2\<close> and \<open>4\<close>, the entries of
  \<open>ones\<close> and \<open>zeros\<close>, the counters of \<open>linspace\<close>), \<open>fpi\<close> is \<^verbatim>\<open>numpy.pi\<close>; \<open>iszero\<close> is
  the test \<^verbatim>\<open>x == 0\<close>, and \<open>isfinite\<close>, \<open>isnan\<close>, \<open>isinf\<close> are the numpy predicates of
  these names.
\<close>

record 'f arith =
  fnat :: "nat \<Rightarrow> 'f"
  fpi :: 'f
  fneg :: "'f \<Rightarrow> 'f"
  fadd :: "'f \<Rightarrow> 'f \<Rightarrow> 'f"
  fsub :: "'f \<Rightarrow> 'f \<Rightarrow> 'f"
  fmul :: "'f \<Rightarrow> 'f \<Rightarrow> 'f"
  fdiv :: "'f \<Rightarrow> 'f \<Rightarrow> 'f"
  fsqrt :: "'f \<Rightarrow> 'f"
  flog :: "'f \<Rightarrow> 'f"
  fcos :: "'f \<Rightarrow> 'f"
  fsin :: "'f \<Rightarrow> 'f"
  fsinh :: "'f \<Rightarrow> 'f"
  fcosh :: "'f \<Rightarrow> 'f"
  farctan2 :: "'f \<Rightarrow> 'f \<Rightarrow> 'f"
  iszero :: "'f \<Rightarrow> bool"
  isfinite :: "'f \<Rightarrow> bool"
  isnan :: "'f \<Rightarrow> bool"
  isinf :: "'f \<Rightarrow> bool"

text \<open>\<^verbatim>\<open>x**2\<close> on a float array is the product \<open>x * x\<close>.\<close>

definition fsquare :: "'f arith \<Rightarrow> 'f \<Rightarrow> 'f" where
  "fsquare F a = fmul F a a"

subsection \<open>Arrays\<close>

text \<open>
  A two-dimensional numpy array: its shape and its rows. The shape is kept beside the
  rows because an array of shape \<open>(0, n)\<close> has no row to read \<open>n\<close> from.
\<close>

record 'f ndarray =
  nrows :: nat
  ncols :: nat
  rows :: "'f list list"

definition wellformed :: "'f ndarray \<Rightarrow> bool" where
  "wellformed A = (length (rows A) = nrows A \<and> list_all (\<lambda>r. length r = ncols A) (rows A))"

definition shape :: "'f ndarray \<Rightarrow> nat \<times> nat" where
  "shape A = (nrows A, ncols A)"

definition cell :: "'f ndarray \<Rightarrow> nat \<Rightarrow> nat \<Rightarrow> 'f" where
  "cell A i j = rows A ! i ! j"

text \<open>The array of a given shape whose cell \<open>(i, j)\<close> is \<open>f i j\<close>.\<close>

definition mk :: "nat \<Rightarrow> nat \<Rightarrow> (nat \<Rightarrow> nat \<Rightarrow> 'f) \<Rightarrow> 'f ndarray" where
  "mk m n f = \<lparr>nrows = m, ncols = n, rows = map (\<lambda>i. map (f i) [0..<n]) [0..<m]\<rparr>"

datatype error = ValueError | IndexError | AttributeError

text \<open>
  A function applied to every cell: a numpy ufunc of one array, and the arithmetic of an
  array with a scalar.
\<close>

definition amap :: "('f \<Rightarrow> 'f) \<Rightarrow> 'f ndarray \<Rightarrow> 'f ndarray" where
  "amap f A = \<lparr>nrows = nrows A, ncols = ncols A, rows = map (map f) (rows A)\<rparr>"

text \<open>
  Broadcasting of two arrays: along each axis the lengths are equal or one of them is 1,
  and the axis of length 1 is repeated; any other pair of lengths raises ValueError.
\<close>

definition bdim :: "nat \<Rightarrow> nat \<Rightarrow> nat option" where
  "bdim m n = (if m = n then Some m else if m = 1 then Some n else if n = 1 then Some m else None)"

definition broadcast_shape :: "nat \<times> nat \<Rightarrow> nat \<times> nat \<Rightarrow> (nat \<times> nat) option" where
  "broadcast_shape s t =
     (case bdim (fst s) (fst t) of
        None \<Rightarrow> None
      | Some m \<Rightarrow> (case bdim (snd s) (snd t) of None \<Rightarrow> None | Some n \<Rightarrow> Some (m, n)))"

definition bcell :: "'f ndarray \<Rightarrow> nat \<Rightarrow> nat \<Rightarrow> 'f" where
  "bcell A i j = cell A (if nrows A = 1 then 0 else i) (if ncols A = 1 then 0 else j)"

definition azip :: "('f \<Rightarrow> 'f \<Rightarrow> 'f) \<Rightarrow> 'f ndarray \<Rightarrow> 'f ndarray \<Rightarrow> error + 'f ndarray" where
  "azip f A B =
     (case broadcast_shape (shape A) (shape B) of
        None \<Rightarrow> Inl ValueError
      | Some s \<Rightarrow> Inr (mk (fst s) (snd s) (\<lambda>i j. f (bcell A i j) (bcell B i j))))"

text \<open>Sequencing of computations that may raise: the first exception ends the run.\<close>

definition bindE :: "error + 'a \<Rightarrow> ('a \<Rightarrow> error + 'b) \<Rightarrow> error + 'b" where
  "bindE r f = (case r of Inl e \<Rightarrow> Inl e | Inr a \<Rightarrow> f a)"

subsection \<open>Library functions of numpy\<close>

text \<open>
  \<^verbatim>\<open>numpy.ones((m, n))\<close> and \<^verbatim>\<open>numpy.zeros((m, n))\<close>, both the array filled with one
  value: a negative dimension raises ValueError.
\<close>

definition full :: "'f \<Rightarrow> int \<Rightarrow> int \<Rightarrow> error + 'f ndarray" where
  "full c m n = (if m < 0 \<or> n < 0 then Inl ValueError else Inr (mk (nat m) (nat n) (\<lambda>i j. c)))"

definition ones :: "'f arith \<Rightarrow> int \<Rightarrow> int \<Rightarrow> error + 'f ndarray" where
  "ones F m n = full (fnat F 1) m n"

definition zeros :: "'f arith \<Rightarrow> int \<Rightarrow> int \<Rightarrow> error + 'f ndarray" where
  "zeros F m n = full (fnat F 0) m n"

text \<open>
  \<^verbatim>\<open>numpy.linspace(start, stop, num)\<close> for two floats, as numpy computes it:
  \<open>delta = stop - start\<close>, \<open>step = delta / (num - 1)\<close>, the samples \<open>i * step + start\<close> for
  \<open>i = 0, ..., num - 1\<close> (\<open>(i / (num - 1)) * delta + start\<close> when \<open>step == 0\<close>, and
  \<open>i * delta + start\<close> when \<open>num \<le> 1\<close>), and the last sample overwritten with \<open>stop\<close> when
  \<open>num > 1\<close>. A negative \<open>num\<close> raises ValueError. The result is one-dimensional: a list.
\<close>

definition linspace :: "'f arith \<Rightarrow> 'f \<Rightarrow> 'f \<Rightarrow> int \<Rightarrow> error + 'f list" where
  "linspace F start stop num =
     (if num < 0 then Inl ValueError
      else
        let n = nat num;
            dv = fnat F (n - 1);
            delta = fsub F stop start;
            y0 = map (fnat F) [0..<n];
            y1 = (if 0 < num - 1
                  then (let step = fdiv F delta dv
                        in if iszero F step then map (\<lambda>t. fmul F (fdiv F t dv) delta) y0
                           else map (\<lambda>t. fmul F t step) y0)
                  else map (\<lambda>t. fmul F t delta) y0);
            y2 = map (\<lambda>t. fadd F t start) y1
        in Inr (if 1 < num then y2[n - 1 := stop] else y2))"

text \<open>
  \<^verbatim>\<open>numpy.meshgrid(x, y)\<close> with the default indexing: both results have shape
  \<open>(len(y), len(x))\<close>; the first repeats \<open>x\<close> in every row, the second repeats \<open>y\<close> in
  every column.
\<close>

definition meshgrid :: "'f list \<Rightarrow> 'f list \<Rightarrow> 'f ndarray \<times> 'f ndarray" where
  "meshgrid x y =
     (mk (length y) (length x) (\<lambda>i j. x ! j), mk (length y) (length x) (\<lambda>i j. y ! i))"

subsection \<open>The grid generator\<close>

text \<open>
  \<^verbatim>\<open>x = numpy.linspace(x_start, x_end, N)\<close>
  \<^verbatim>\<open>y = numpy.linspace(y_start, y_end, N)\<close>
  \<^verbatim>\<open>X, Y = numpy.meshgrid(x,y)\<close>
\<close>

definition create_grid ::
  "'f arith \<Rightarrow> int \<Rightarrow> 'f \<Rightarrow> 'f \<Rightarrow> 'f \<Rightarrow> 'f \<Rightarrow> error + ('f ndarray \<times> 'f ndarray)" where
  "create_grid F N x_start x_end y_start y_end =
     bindE (linspace F x_start x_end N) (\<lambda>x.
     bindE (linspace F y_start y_end N) (\<lambda>y.
     Inr (meshgrid x y)))"

subsection \<open>The free evaluators\<close>

text \<open>The Python floats \<^verbatim>\<open>2*numpy.pi\<close> and \<^verbatim>\<open>4*numpy.pi\<close>.\<close>

definition two_pi :: "'f arith \<Rightarrow> 'f" where
  "two_pi F = fmul F (fnat F 2) (fpi F)"

definition four_pi :: "'f arith \<Rightarrow> 'f" where
  "four_pi F = fmul F (fnat F 4) (fpi F)"

text \<open>
  The subexpression \<^verbatim>\<open>(X-x0)**2+(Y-y0)**2\<close>, which every point singularity divides by.
  The sum of two arrays is where shapes that do not broadcast raise.
\<close>

definition dist2 :: "'f arith \<Rightarrow> 'f \<Rightarrow> 'f \<Rightarrow> 'f ndarray \<Rightarrow> 'f ndarray \<Rightarrow> error + 'f ndarray" where
  "dist2 F x0 y0 X Y =
     azip (fadd F) (amap (fsquare F) (amap (\<lambda>t. fsub F t x0) X))
                   (amap (fsquare F) (amap (\<lambda>t. fsub F t y0) Y))"

text \<open>
  \<^verbatim>\<open>u = u_inf * numpy.cos(alpha) * numpy.ones((N, N), dtype=float)\<close>
  \<^verbatim>\<open>v = u_inf * numpy.sin(alpha) * numpy.zeros((N, N), dtype=float)\<close>
  \<^verbatim>\<open>psi = u_inf * (Y * numpy.cos(alpha) - X * numpy.sin(alpha))\<close>
\<close>

definition get_freestream_info ::
  "'f arith \<Rightarrow> 'f \<Rightarrow> 'f \<Rightarrow> 'f ndarray \<Rightarrow> 'f ndarray \<Rightarrow> int \<Rightarrow>
   error + ('f ndarray \<times> 'f ndarray \<times> 'f ndarray)" where
  "get_freestream_info F u_inf alpha X Y N =
     bindE (bindE (ones F N N) (\<lambda>a. Inr (amap (fmul F (fmul F u_inf (fcos F alpha))) a))) (\<lambda>u.
     bindE (bindE (zeros F N N) (\<lambda>a. Inr (amap (fmul F (fmul F u_inf (fsin F alpha))) a))) (\<lambda>v.
     bindE (bindE (azip (fsub F) (amap (\<lambda>t. fmul F t (fcos F alpha)) Y)
                                 (amap (\<lambda>t. fmul F t (fsin F alpha)) X))
              (\<lambda>a. Inr (amap (fmul F u_inf) a))) (\<lambda>psi.
     Inr (u, v, psi))))"

text \<open>
  \<^verbatim>\<open>u = + strength/(2*numpy.pi)*(Y-yv)/((X-xv)**2+(Y-yv)**2)\<close>
  \<^verbatim>\<open>v = - strength/(2*numpy.pi)*(X-xv)/((X-xv)**2+(Y-yv)**2)\<close>
  \<^verbatim>\<open>psi = strength/(4*numpy.pi)*numpy.log(numpy.sqrt((X-xv)**2+(Y-yv)**2))\<close>
  The unary signs bind tighter than the division: \<open>(-strength)/(2*pi)\<close>.
\<close>

definition get_vortex_info ::
  "'f arith \<Rightarrow> 'f \<Rightarrow> 'f \<Rightarrow> 'f \<Rightarrow> 'f ndarray \<Rightarrow> 'f ndarray \<Rightarrow>
   error + ('f ndarray \<times> 'f ndarray \<times> 'f ndarray)" where
  "get_vortex_info F strength xv yv X Y =
     bindE (bindE (dist2 F xv yv X Y)
              (azip (fdiv F) (amap (fmul F (fdiv F strength (two_pi F)))
                                (amap (\<lambda>t. fsub F t yv) Y)))) (\<lambda>u.
     bindE (bindE (dist2 F xv yv X Y)
              (azip (fdiv F) (amap (fmul F (fdiv F (fneg F strength) (two_pi F)))
                                (amap (\<lambda>t. fsub F t xv) X)))) (\<lambda>v.
     bindE (bindE (dist2 F xv yv X Y)
              (\<lambda>a. Inr (amap (fmul F (fdiv F strength (four_pi F)))
                           (amap (flog F) (amap (fsqrt F) a))))) (\<lambda>psi.
     Inr (u, v, psi))))"

text \<open>
  \<^verbatim>\<open>a = x_vortices[1]-x_vortices[0]\<close>
  \<^verbatim>\<open>c = 2*numpy.pi/a\<close>
  \<^verbatim>\<open>u = + (gamma/(2*a))*((numpy.sinh(c*Y))/(numpy.cosh(c*Y) - numpy.cos(c*X)))\<close>
  \<^verbatim>\<open>v = - (gamma/(2*a))*((numpy.sin(c*X))/(numpy.cosh(c*Y) - numpy.cos(c*X)))\<close>
  Reading \<^verbatim>\<open>x_vortices[1]\<close> in an array of fewer than two entries raises IndexError.
\<close>

definition get_velocity_infinite_vortices ::
  "'f arith \<Rightarrow> 'f \<Rightarrow> 'f ndarray \<Rightarrow> 'f ndarray \<Rightarrow> 'f list \<Rightarrow> error + ('f ndarray \<times> 'f ndarray)" where
  "get_velocity_infinite_vortices F gamma X Y x_vortices =
     (if length x_vortices < 2 then Inl IndexError
      else
        let a = fsub F (x_vortices ! 1) (x_vortices ! 0);
            c = fdiv F (two_pi F) a
        in
        bindE (bindE (bindE (azip (fsub F) (amap (fcosh F) (amap (fmul F c) Y))
                                           (amap (fcos F) (amap (fmul F c) X)))
                        (azip (fdiv F) (amap (fsinh F) (amap (fmul F c) Y))))
                 (\<lambda>q. Inr (amap (fmul F (fdiv F gamma (fmul F (fnat F 2) a))) q))) (\<lambda>u.
        bindE (bindE (bindE (azip (fsub F) (amap (fcosh F) (amap (fmul F c) Y))
                                           (amap (fcos F) (amap (fmul F c) X)))
                        (azip (fdiv F) (amap (fsin F) (amap (fmul F c) X))))
                 (\<lambda>q. Inr (amap (fmul F (fneg F (fdiv F gamma (fmul F (fnat F 2) a)))) q))) (\<lambda>v.
        Inr (u, v))))"

text \<open>
  \<^verbatim>\<open>u = strength/(2*numpy.pi)*(X-xs)/((X-xs)**2+(Y-ys)**2)\<close>
  \<^verbatim>\<open>v = strength/(2*numpy.pi)*(Y-ys)/((X-xs)**2+(Y-ys)**2)\<close>
  \<^verbatim>\<open>psi = strength/(2*numpy.pi)*numpy.arctan2((Y-ys), (X-xs))\<close>
\<close>

definition get_ss_info ::
  "'f arith \<Rightarrow> 'f \<Rightarrow> 'f \<Rightarrow> 'f \<Rightarrow> 'f ndarray \<Rightarrow> 'f ndarray \<Rightarrow>
   error + ('f ndarray \<times> 'f ndarray \<times> 'f ndarray)" where
  "get_ss_info F strength xs ys X Y =
     bindE (bindE (dist2 F xs ys X Y)
              (azip (fdiv F) (amap (fmul F (fdiv F strength (two_pi F)))
                                (amap (\<lambda>t. fsub F t xs) X)))) (\<lambda>u.
     bindE (bindE (dist2 F xs ys X Y)
              (azip (fdiv F) (amap (fmul F (fdiv F strength (two_pi F)))
                                (amap (\<lambda>t. fsub F t ys) Y)))) (\<lambda>v.
     bindE (bindE (azip (farctan2 F) (amap (\<lambda>t. fsub F t ys) Y) (amap (\<lambda>t. fsub F t xs) X))
              (\<lambda>a. Inr (amap (fmul F (fdiv F strength (two_pi F))) a))) (\<lambda>psi.
     Inr (u, v, psi))))"

text \<open>
  \<^verbatim>\<open>u = - strength/(2*numpy.pi)*((X-xd)**2-(Y-yd)**2)/((X-xd)**2+(Y-yd)**2)**2\<close>
  \<^verbatim>\<open>v = - strength/(2*numpy.pi)*2*(X-xd)*(Y-yd)/((X-xd)**2+(Y-yd)**2)**2\<close>
  \<^verbatim>\<open>psi = - strength/(2*numpy.pi)*(Y-yd)/((X-xd)**2+(Y-yd)**2)\<close>
\<close>

definition get_doublet_info ::
  "'f arith \<Rightarrow> 'f \<Rightarrow> 'f \<Rightarrow> 'f \<Rightarrow> 'f ndarray \<Rightarrow> 'f ndarray \<Rightarrow>
   error + ('f ndarray \<times> 'f ndarray \<times> 'f ndarray)" where
  "get_doublet_info F strength xd yd X Y =
     bindE (bindE (azip (fsub F) (amap (fsquare F) (amap (\<lambda>t. fsub F t xd) X))
                                 (amap (fsquare F) (amap (\<lambda>t. fsub F t yd) Y))) (\<lambda>n.
            bindE (dist2 F xd yd X Y) (\<lambda>d.
            azip (fdiv F) (amap (fmul F (fdiv F (fneg F strength) (two_pi F))) n)
                          (amap (fsquare F) d)))) (\<lambda>u.
     bindE (bindE (azip (fmul F)
                     (amap (fmul F (fmul F (fdiv F (fneg F strength) (two_pi F)) (fnat F 2)))
                        (amap (\<lambda>t. fsub F t xd) X))
                     (amap (\<lambda>t. fsub F t yd) Y)) (\<lambda>n.
            bindE (dist2 F xd yd X Y) (\<lambda>d.
            azip (fdiv F) n (amap (fsquare F) d)))) (\<lambda>v.
     bindE (bindE (dist2 F xd yd X Y)
              (azip (fdiv F) (amap (fmul F (fdiv F (fneg F strength) (two_pi F)))
                                (amap (\<lambda>t. fsub F t yd) Y)))) (\<lambda>psi.
     Inr (u, v, psi))))"

subsection \<open>The classes Source and Vortex\<close>

text \<open>
  An object holds the three values given to the constructor; the attributes \<open>u\<close>, \<open>v\<close>
  and \<open>psi\<close> do not exist until a method assigns them. A method returns the updated
  object, or the exception it raised. In \<open>velocity\<close> the second expression raises only
  where the first does, so no exception leaves an object half updated.
\<close>

record 'f Source =
  Source_strength :: 'f
  Source_x :: 'f
  Source_y :: 'f
  Source_u :: "'f ndarray option"
  Source_v :: "'f ndarray option"
  Source_psi :: "'f ndarray option"

definition Source_init :: "'f \<Rightarrow> 'f \<Rightarrow> 'f \<Rightarrow> 'f Source" where
  "Source_init strength x y =
     \<lparr>Source_strength = strength, Source_x = x, Source_y = y,
      Source_u = None, Source_v = None, Source_psi = None\<rparr>"

text \<open>
  \<^verbatim>\<open>self.u = self.strength/(2*numpy.pi)*(X-self.x)/((X-self.x)**2+(Y-self.y)**2)\<close>
  \<^verbatim>\<open>self.v = self.strength/(2*numpy.pi)*(Y-self.y)/((X-self.x)**2+(Y-self.y)**2)\<close>
\<close>

definition Source_velocity ::
  "'f arith \<Rightarrow> 'f Source \<Rightarrow> 'f ndarray \<Rightarrow> 'f ndarray \<Rightarrow> error + 'f Source" where
  "Source_velocity F self X Y =
     bindE (bindE (dist2 F (Source_x self) (Source_y self) X Y)
              (azip (fdiv F) (amap (fmul F (fdiv F (Source_strength self) (two_pi F)))
                                (amap (\<lambda>t. fsub F t (Source_x self)) X)))) (\<lambda>u.
     bindE (bindE (dist2 F (Source_x self) (Source_y self) X Y)
              (azip (fdiv F) (amap (fmul F (fdiv F (Source_strength self) (two_pi F)))
                                (amap (\<lambda>t. fsub F t (Source_y self)) Y)))) (\<lambda>v.
     Inr (self\<lparr>Source_u := Some u, Source_v := Some v\<rparr>)))"

text \<open>
  \<^verbatim>\<open>self.psi = self.strength/(2*numpy.pi)*numpy.arctan2((Y-self.y), (X-self.x))\<close>
\<close>

definition Source_stream_function ::
  "'f arith \<Rightarrow> 'f Source \<Rightarrow> 'f ndarray \<Rightarrow> 'f ndarray \<Rightarrow> error + 'f Source" where
  "Source_stream_function F self X Y =
     bindE (bindE (azip (farctan2 F) (amap (\<lambda>t. fsub F t (Source_y self)) Y)
                                     (amap (\<lambda>t. fsub F t (Source_x self)) X))
              (\<lambda>a. Inr (amap (fmul F (fdiv F (Source_strength self) (two_pi F))) a))) (\<lambda>psi.
     Inr (self\<lparr>Source_psi := Some psi\<rparr>))"

record 'f Vortex =
  Vortex_strength :: 'f
  Vortex_x :: 'f
  Vortex_y :: 'f
  Vortex_u :: "'f ndarray option"
  Vortex_v :: "'f ndarray option"
  Vortex_psi :: "'f ndarray option"

definition Vortex_init :: "'f \<Rightarrow> 'f \<Rightarrow> 'f \<Rightarrow> 'f Vortex" where
  "Vortex_init strength x y =
     \<lparr>Vortex_strength = strength, Vortex_x = x, Vortex_y = y,
      Vortex_u = None, Vortex_v = None, Vortex_psi = None\<rparr>"

text \<open>
  \<^verbatim>\<open>self.u = +self.strength/(2*numpy.pi)*(Y-self.y)/((X-self.x)**2+(Y-self.y)**2)\<close>
  \<^verbatim>\<open>self.v = -self.strength/(2*numpy.pi)*(X-self.x)/((X-self.x)**2+(Y-self.y)**2)\<close>
\<close>

definition Vortex_velocity ::
  "'f arith \<Rightarrow> 'f Vortex \<Rightarrow> 'f ndarray \<Rightarrow> 'f ndarray \<Rightarrow> error + 'f Vortex" where
  "Vortex_velocity F self X Y =
     bindE (bindE (dist2 F (Vortex_x self) (Vortex_y self) X Y)
              (azip (fdiv F) (amap (fmul F (fdiv F (Vortex_strength self) (two_pi F)))
                                (amap (\<lambda>t. fsub F t (Vortex_y self)) Y)))) (\<lambda>u.
     bindE (bindE (dist2 F (Vortex_x self) (Vortex_y self) X Y)
              (azip (fdiv F) (amap (fmul F (fdiv F (fneg F (Vortex_strength self)) (two_pi F)))
                                (amap (\<lambda>t. fsub F t (Vortex_x self)) X)))) (\<lambda>v.
     Inr (self\<lparr>Vortex_u := Some u, Vortex_v := Some v\<rparr>)))"

text \<open>
  \<^verbatim>\<open>self.psi = -self.strength/(4*numpy.pi)*numpy.log((X-self.x)**2+(Y-self.y)**2)\<close>
\<close>

definition Vortex_stream_function ::
  "'f arith \<Rightarrow> 'f Vortex \<Rightarrow> 'f ndarray \<Rightarrow> 'f ndarray \<Rightarrow> error + 'f Vortex" where
  "Vortex_stream_function F self X Y =
     bindE (bindE (dist2 F (Vortex_x self) (Vortex_y self) X Y)
              (\<lambda>a. Inr (amap (fmul F (fdiv F (fneg F (Vortex_strength self)) (four_pi F)))
                           (amap (flog F) a)))) (\<lambda>psi.
     Inr (self\<lparr>Vortex_psi := Some psi\<rparr>))"

text \<open>
  Reading \<^verbatim>\<open>(self.u, self.v, self.psi)\<close>: an attribute that no method has assigned yet
  raises AttributeError.
\<close>

definition Source_fields :: "'f Source \<Rightarrow> error + ('f ndarray \<times> 'f ndarray \<times> 'f ndarray)" where
  "Source_fields self =
     (case Source_u self of None \<Rightarrow> Inl AttributeError | Some u \<Rightarrow>
     (case Source_v self of None \<Rightarrow> Inl AttributeError | Some v \<Rightarrow>
     (case Source_psi self of None \<Rightarrow> Inl AttributeError | Some psi \<Rightarrow> Inr (u, v, psi))))"

definition Vortex_fields :: "'f Vortex \<Rightarrow> error + ('f ndarray \<times> 'f ndarray \<times> 'f ndarray)" where
  "Vortex_fields self =
     (case Vortex_u self of None \<Rightarrow> Inl AttributeError | Some u \<Rightarrow>
     (case Vortex_v self of None \<Rightarrow> Inl AttributeError | Some v \<Rightarrow>
     (case Vortex_psi self of None \<Rightarrow> Inl AttributeError | Some psi \<Rightarrow> Inr (u, v, psi))))"

text \<open>
  The use of an object that the free functions are compared with:
  \<^verbatim>\<open>s = Source(strength, x, y); s.velocity(X, Y); s.stream_function(X, Y)\<close>, then the
  attributes \<^verbatim>\<open>(s.u, s.v, s.psi)\<close>; and the same for a Vortex.
\<close>

definition Source_run ::
  "'f arith \<Rightarrow> 'f \<Rightarrow> 'f \<Rightarrow> 'f \<Rightarrow> 'f ndarray \<Rightarrow> 'f ndarray \<Rightarrow>
   error + ('f ndarray \<times> 'f ndarray \<times> 'f ndarray)" where
  "Source_run F strength x y X Y =
     bindE (Source_velocity F (Source_init strength x y) X Y) (\<lambda>self.
     bindE (Source_stream_function F self X Y) Source_fields)"

definition Vortex_run ::
  "'f arith \<Rightarrow> 'f \<Rightarrow> 'f \<Rightarrow> 'f \<Rightarrow> 'f ndarray \<Rightarrow> 'f ndarray \<Rightarrow>
   error + ('f ndarray \<times> 'f ndarray \<times> 'f ndarray)" where
  "Vortex_run F strength x y X Y =
     bindE (Vortex_velocity F (Vortex_init strength x y) X Y) (\<lambda>self.
     bindE (Vortex_stream_function F self X Y) Vortex_fields)"

subsection \<open>Reading one cell of a result\<close>

text \<open>
  The components of a returned tuple, \<open>None\<close> when the call raised, and one cell of such
  a component.
\<close>

definition res_u :: "error + ('a \<times> 'a \<times> 'a) \<Rightarrow> 'a option" where
  "res_u r = (case r of Inl e \<Rightarrow> None | Inr t \<Rightarrow> Some (fst t))"

definition res_v :: "error + ('a \<times> 'a \<times> 'a) \<Rightarrow> 'a option" where
  "res_v r = (case r of Inl e \<Rightarrow> None | Inr t \<Rightarrow> Some (fst (snd t)))"

definition res_psi :: "error + ('a \<times> 'a \<times> 'a) \<Rightarrow> 'a option" where
  "res_psi r = (case r of Inl e \<Rightarrow> None | Inr t \<Rightarrow> Some (snd (snd t)))"

definition res_fst :: "error + ('a \<times> 'a) \<Rightarrow> 'a option" where
  "res_fst r = (case r of Inl e \<Rightarrow> None | Inr t \<Rightarrow> Some (fst t))"

definition res_snd :: "error + ('a \<times> 'a) \<Rightarrow> 'a option" where
  "res_snd r = (case r of Inl e \<Rightarrow> None | Inr t \<Rightarrow> Some (snd t))"

definition opt_cell :: "'f ndarray option \<Rightarrow> nat \<Rightarrow> nat \<Rightarrow> 'f option" where
  "opt_cell A i j = map_option (\<lambda>a. cell a i j) A"

definition opt_shape :: "'f ndarray option \<Rightarrow> (nat \<times> nat) option" where
  "opt_shape A = map_option shape A"

text \<open>The cell \<open>(i, j)\<close> of \<open>u\<close>, of \<open>v\<close> and of \<open>psi\<close>.\<close>

definition cells3 ::
  "error + ('f ndarray \<times> 'f ndarray \<times> 'f ndarray) \<Rightarrow> nat \<Rightarrow> nat \<Rightarrow>
   'f option \<times> 'f option \<times> 'f option" where
  "cells3 r i j = (opt_cell (res_u r) i j, opt_cell (res_v r) i j, opt_cell (res_psi r) i j)"

text \<open>The array exists (the call returned) and its cell \<open>(i, j)\<close> satisfies \<open>P\<close>.\<close>

definition cell_is :: "('f \<Rightarrow> bool) \<Rightarrow> 'f ndarray option \<Rightarrow> nat \<Rightarrow> nat \<Rightarrow> bool" where
  "cell_is P A i j = (case A of None \<Rightarrow> False | Some a \<Rightarrow> P (cell a i j))"

text \<open>The columns of an array, each read from the first row down.\<close>

definition columns :: "'f ndarray \<Rightarrow> 'f list list" where
  "columns A = map (\<lambda>j. map (\<lambda>r. r ! j) (rows A)) [0..<ncols A]"

definition opt_rows :: "'f ndarray option \<Rightarrow> 'f list list option" where
  "opt_rows A = map_option rows A"

definition opt_columns :: "'f ndarray option \<Rightarrow> 'f list list option" where
  "opt_columns A = map_option columns A"

text \<open>\<^verbatim>\<open>numpy.array(rs)\<close> for a list of rows of one length.\<close>

definition of_rows :: "'f list list \<Rightarrow> 'f ndarray" where
  "of_rows rs = \<lparr>nrows = length rs, ncols = (case rs of [] \<Rightarrow> 0 | r # _ \<Rightarrow> length r), rows = rs\<rparr>"

text \<open>The one-cell array holding \<open>a\<close>.\<close>

definition single :: "'f \<Rightarrow> 'f ndarray" where
  "single a = \<lparr>nrows = 1, ncols = 1, rows = [[a]]\<rparr>"

subsection \<open>Facts of IEEE arithmetic used as hypotheses\<close>

text \<open>
  Multiplying by the double 1 changes nothing; the double 0 is a zero; a finite double
  times a zero is a zero; and a finite double times the sine of a finite double is finite
  (the sine lies between -1 and 1, so the product cannot overflow).
\<close>

definition ieee_one_zero :: "'f arith \<Rightarrow> bool" where
  "ieee_one_zero F =
     ((\<forall>a. fmul F a (fnat F 1) = a) \<and>
      iszero F (fnat F 0) \<and>
      (\<forall>a b. isfinite F a \<and> iszero F b \<longrightarrow> iszero F (fmul F a b)) \<and>
      (\<forall>a b. isfinite F a \<and> isfinite F b \<longrightarrow> isfinite F (fmul F a (fsin F b))))"

text \<open>
  The arithmetic of natural numbers below \<open>2\<^sup>5\<^sup>3\<close> is exact: each is a double, and a
  difference, an exact quotient, a product or a sum that stays below \<open>2\<^sup>5\<^sup>3\<close> is the double
  of the result. Only the double of 0 among them is a zero.
\<close>

definition nat_exact :: "'f arith \<Rightarrow> bool" where
  "nat_exact F =
     ((\<forall>m n. n \<le> m \<and> m < 2 ^ 53 \<longrightarrow> fsub F (fnat F m) (fnat F n) = fnat F (m - n)) \<and>
      (\<forall>m n. 0 < n \<and> n dvd m \<and> m < 2 ^ 53 \<longrightarrow> fdiv F (fnat F m) (fnat F n) = fnat F (m div n)) \<and>
      (\<forall>m n. m * n < 2 ^ 53 \<longrightarrow> fmul F (fnat F m) (fnat F n) = fnat F (m * n)) \<and>
      (\<forall>m n. m + n < 2 ^ 53 \<longrightarrow> fadd F (fnat F m) (fnat F n) = fnat F (m + n)) \<and>
      (\<forall>m. m < 2 ^ 53 \<longrightarrow> iszero F (fnat F m) = (m = 0)))"

text \<open>
  The special values. A zero is finite. Anything times a zero is a zero or NaN, and a
  finite value times a zero is a zero. The sum and the difference of two zeros are zeros.
  A zero or NaN divided by a zero is NaN. The square root of a zero is a zero and its
  logarithm is an infinity. Nothing times an infinity is finite. The arctangent of two
  zeros is a zero, \<open>pi\<close> or \<open>-pi\<close>, by the signs of the zeros.
\<close>

definition ieee_special :: "'f arith \<Rightarrow> bool" where
  "ieee_special F =
     ((\<forall>a. iszero F a \<longrightarrow> isfinite F a) \<and>
      (\<forall>a b. iszero F b \<longrightarrow> iszero F (fmul F a b) \<or> isnan F (fmul F a b)) \<and>
      (\<forall>a b. isfinite F a \<and> iszero F b \<longrightarrow> iszero F (fmul F a b)) \<and>
      (\<forall>a b. iszero F a \<and> iszero F b \<longrightarrow> iszero F (fadd F a b)) \<and>
      (\<forall>a b. iszero F a \<and> iszero F b \<longrightarrow> iszero F (fsub F a b)) \<and>
      (\<forall>a b. (iszero F a \<or> isnan F a) \<and> iszero F b \<longrightarrow> isnan F (fdiv F a b)) \<and>
      (\<forall>a. iszero F a \<longrightarrow> iszero F (fsqrt F a)) \<and>
      (\<forall>a. iszero F a \<longrightarrow> isinf F (flog F a)) \<and>
      (\<forall>a b. isinf F b \<longrightarrow> \<not> isfinite F (fmul F a b)) \<and>
      (\<forall>a b. iszero F a \<and> iszero F b \<longrightarrow>
         iszero F (farctan2 F a b) \<or> farctan2 F a b = fpi F \<or> farctan2 F a b = fneg F (fpi F)))"

text \<open>
  The coefficient \<open>strength/(2 pi)\<close> of a source, and its products with \<open>pi\<close> and \<open>-pi\<close>,
  are finite: so they are for every finite double \<open>strength\<close>, none of the three being
  larger than the strength.
\<close>

definition finite_strength :: "'f arith \<Rightarrow> 'f \<Rightarrow> bool" where
  "finite_strength F s =
     (isfinite F (fdiv F s (two_pi F)) \<and>
      isfinite F (fmul F (fdiv F s (two_pi F)) (fpi F)) \<and>
      isfinite F (fmul F (fdiv F s (two_pi F)) (fneg F (fpi F))))"

subsection \<open>The arithmetic of the reals\<close>

text \<open>
  One arithmetic to compute in: the real numbers with \<open>+inf\<close>, \<open>-inf\<close> and NaN, where a
  division by zero gives an infinity or NaN, \<open>log 0\<close> is \<open>-inf\<close> and NaN propagates. It is
  not the arithmetic of doubles: it does not round, overflow or underflow, and it has one
  zero. It serves to evaluate the evaluators at inputs where doubles do none of these
  beyond rounding in the last place.
\<close>

datatype xreal = Fin real | PInf | NInf | NaN

fun exact_isfinite :: "xreal \<Rightarrow> bool" where
  "exact_isfinite (Fin a) = True"
| "exact_isfinite PInf = False"
| "exact_isfinite NInf = False"
| "exact_isfinite NaN = False"

text \<open>The infinity with the sign of a real; a zero has none to give.\<close>

definition inf_signed :: "real \<Rightarrow> xreal" where
  "inf_signed a = (if a = 0 then NaN else if 0 < a then PInf else NInf)"

fun exact_neg :: "xreal \<Rightarrow> xreal" where
  "exact_neg (Fin a) = Fin (- a)"
| "exact_neg PInf = NInf"
| "exact_neg NInf = PInf"
| "exact_neg NaN = NaN"

fun exact_add :: "xreal \<Rightarrow> xreal \<Rightarrow> xreal" where
  "exact_add (Fin a) (Fin b) = Fin (a + b)"
| "exact_add (Fin a) PInf = PInf"
| "exact_add (Fin a) NInf = NInf"
| "exact_add PInf (Fin b) = PInf"
| "exact_add PInf PInf = PInf"
| "exact_add PInf NInf = NaN"
| "exact_add NInf (Fin b) = NInf"
| "exact_add NInf NInf = NInf"
| "exact_add NInf PInf = NaN"
| "exact_add NaN b = NaN"
| "exact_add a NaN = NaN"

definition exact_sub :: "xreal \<Rightarrow> xreal \<Rightarrow> xreal" where
  "exact_sub a b = exact_add a (exact_neg b)"

fun exact_mul :: "xreal \<Rightarrow> xreal \<Rightarrow> xreal" where
  "exact_mul (Fin a) (Fin b) = Fin (a * b)"
| "exact_mul (Fin a) PInf = inf_signed a"
| "exact_mul (Fin a) NInf = inf_signed (- a)"
| "exact_mul PInf (Fin b) = inf_signed b"
| "exact_mul NInf (Fin b) = inf_signed (- b)"
| "exact_mul PInf PInf = PInf"
| "exact_mul PInf NInf = NInf"
| "exact_mul NInf PInf = NInf"
| "exact_mul NInf NInf = PInf"
| "exact_mul NaN b = NaN"
| "exact_mul a NaN = NaN"

fun exact_div :: "xreal \<Rightarrow> xreal \<Rightarrow> xreal" where
  "exact_div (Fin a) (Fin b) = (if b = 0 then inf_signed a else Fin (a / b))"
| "exact_div (Fin a) PInf = Fin 0"
| "exact_div (Fin a) NInf = Fin 0"
| "exact_div PInf (Fin b) = (if b < 0 then NInf else PInf)"
| "exact_div NInf (Fin b) = (if b < 0 then PInf else NInf)"
| "exact_div PInf PInf = NaN"
| "exact_div PInf NInf = NaN"
| "exact_div NInf PInf = NaN"
| "exact_div NInf NInf = NaN"
| "exact_div NaN b = NaN"
| "exact_div a NaN = NaN"

fun exact_sqrt :: "xreal \<Rightarrow> xreal" where
  "exact_sqrt (Fin a) = (if a < 0 then NaN else Fin (sqrt a))"
| "exact_sqrt PInf = PInf"
| "exact_sqrt NInf = NaN"
| "exact_sqrt NaN = NaN"

fun exact_log :: "xreal \<Rightarrow> xreal" where
  "exact_log (Fin a) = (if a < 0 then NaN else if a = 0 then NInf else Fin (ln a))"
| "exact_log PInf = PInf"
| "exact_log NInf = NaN"
| "exact_log NaN = NaN"

fun exact_cos :: "xreal \<Rightarrow> xreal" where
  "exact_cos (Fin a) = Fin (cos a)"
| "exact_cos PInf = NaN"
| "exact_cos NInf = NaN"
| "exact_cos NaN = NaN"

fun exact_sin :: "xreal \<Rightarrow> xreal" where
  "exact_sin (Fin a) = Fin (sin a)"
| "exact_sin PInf = NaN"
| "exact_sin NInf = NaN"
| "exact_sin NaN = NaN"

fun exact_sinh :: "xreal \<Rightarrow> xreal" where
  "exact_sinh (Fin a) = Fin (sinh a)"
| "exact_sinh PInf = PInf"
| "exact_sinh NInf = NInf"
| "exact_sinh NaN = NaN"

fun exact_cosh :: "xreal \<Rightarrow> xreal" where
  "exact_cosh (Fin a) = Fin (cosh a)"
| "exact_cosh PInf = PInf"
| "exact_cosh NInf = PInf"
| "exact_cosh NaN = NaN"

text \<open>
  The two-argument arctangent on the reals: the angle in \<open>(-pi, pi]\<close> of the point
  \<open>(x, y)\<close>, and 0 at the origin.
\<close>

definition atan2 :: "real \<Rightarrow> real \<Rightarrow> real" where
  "atan2 y x =
     (if 0 < x then arctan (y / x)
      else if x < 0 then (if y < 0 then arctan (y / x) - pi else arctan (y / x) + pi)
      else if 0 < y then pi / 2
      else if y < 0 then - (pi / 2)
      else 0)"

fun exact_arctan2 :: "xreal \<Rightarrow> xreal \<Rightarrow> xreal" where
  "exact_arctan2 (Fin y) (Fin x) = Fin (atan2 y x)"
| "exact_arctan2 (Fin y) PInf = Fin 0"
| "exact_arctan2 (Fin y) NInf = (if y < 0 then Fin (- pi) else Fin pi)"
| "exact_arctan2 PInf (Fin x) = Fin (pi / 2)"
| "exact_arctan2 NInf (Fin x) = Fin (- (pi / 2))"
| "exact_arctan2 PInf PInf = Fin (pi / 4)"
| "exact_arctan2 PInf NInf = Fin (3 * pi / 4)"
| "exact_arctan2 NInf PInf = Fin (- (pi / 4))"
| "exact_arctan2 NInf NInf = Fin (- (3 * pi / 4))"
| "exact_arctan2 NaN x = NaN"
| "exact_arctan2 y NaN = NaN"

definition exact :: "xreal arith" where
  "exact =
     \<lparr>fnat = (\<lambda>n. Fin (real n)), fpi = Fin pi, fneg = exact_neg,
      fadd = exact_add, fsub = exact_sub, fmul = exact_mul, fdiv = exact_div,
      fsqrt = exact_sqrt, flog = exact_log, fcos = exact_cos, fsin = exact_sin,
      fsinh = exact_sinh, fcosh = exact_cosh, farctan2 = exact_arctan2,
      iszero = (\<lambda>a. a = Fin 0), isfinite = exact_isfinite,
      isnan = (\<lambda>a. a = NaN), isinf = (\<lambda>a. a = PInf \<or> a = NInf)\<rparr>"

section \<open>Properties\<close>

subsection \<open>Arrays\<close>

lemma wellformed_mk: "wellformed (mk m n f)"
  by (simp add: wellformed_def mk_def list_all_iff)

lemma nrows_mk [simp]: "nrows (mk m n f) = m"
  by (simp add: mk_def)

lemma ncols_mk [simp]: "ncols (mk m n f) = n"
  by (simp add: mk_def)

lemma shape_mk [simp]: "shape (mk m n f) = (m, n)"
  by (simp add: shape_def)

lemma cell_mk [simp]: "i < m \<Longrightarrow> j < n \<Longrightarrow> cell (mk m n f) i j = f i j"
  by (simp add: mk_def cell_def)

lemma mk_cong: "(\<And>i j. i < m \<Longrightarrow> j < n \<Longrightarrow> f i j = g i j) \<Longrightarrow> mk m n f = mk m n g"
  by (simp add: mk_def)

lemma amap_mk [simp]: "amap f (mk m n g) = mk m n (\<lambda>i j. f (g i j))"
  by (simp add: amap_def mk_def comp_def)

lemma bcell_mk: "i < m \<Longrightarrow> j < n \<Longrightarrow> bcell (mk m n f) i j = f i j"
  by (auto simp add: bcell_def)

text \<open>On two arrays of one shape, broadcasting is the cell-by-cell operation.\<close>

lemma azip_mk [simp]:
  "azip f (mk m n g) (mk m n h) = Inr (mk m n (\<lambda>i j. f (g i j) (h i j)))"
proof -
  have "mk m n (\<lambda>i j. f (bcell (mk m n g) i j) (bcell (mk m n h) i j)) =
        mk m n (\<lambda>i j. f (g i j) (h i j))"
    by (rule mk_cong) (simp add: bcell_mk)
  then show ?thesis
    by (simp add: azip_def broadcast_shape_def bdim_def)
qed

text \<open>A well-formed array is the table of its cells.\<close>

lemma mk_cell: "wellformed A \<Longrightarrow> mk (nrows A) (ncols A) (cell A) = A"
proof -
  assume w: "wellformed A"
  have "map (\<lambda>i. map (cell A i) [0..<ncols A]) [0..<nrows A] = rows A"
  proof (rule nth_equalityI)
    show "length (map (\<lambda>i. map (cell A i) [0..<ncols A]) [0..<nrows A]) = length (rows A)"
      using w by (simp add: wellformed_def)
  next
    fix i assume "i < length (map (\<lambda>i. map (cell A i) [0..<ncols A]) [0..<nrows A])"
    then have i: "i < nrows A" by simp
    then have "length (rows A ! i) = ncols A"
      using w by (simp add: wellformed_def list_all_length)
    then have "map (cell A i) [0..<ncols A] = rows A ! i"
      by (intro nth_equalityI) (simp_all add: cell_def)
    then show "map (\<lambda>i. map (cell A i) [0..<ncols A]) [0..<nrows A] ! i = rows A ! i"
      using i by simp
  qed
  then show ?thesis by (simp add: mk_def)
qed

lemma same_shape_mk:
  assumes "wellformed X" "wellformed Y" "shape X = shape Y"
  shows "X = mk (nrows X) (ncols X) (cell X)" "Y = mk (nrows X) (ncols X) (cell Y)"
  using assms mk_cell [of X] mk_cell [of Y] by (simp_all add: shape_def)

lemma single_mk: "single a = mk 1 1 (\<lambda>i j. a)"
  by (simp add: single_def mk_def)

lemma wellformed_single [simp]: "wellformed (single a)"
  by (simp add: single_def wellformed_def)

lemma shape_single [simp]: "shape (single a) = (1, 1)"
  by (simp add: single_def shape_def)

lemma nrows_single [simp]: "nrows (single a) = 1"
  by (simp add: single_def)

lemma ncols_single [simp]: "ncols (single a) = 1"
  by (simp add: single_def)

lemma cell_single [simp]: "cell (single a) 0 0 = a"
  by (simp add: single_def cell_def)

subsection \<open>The evaluators on a grid of one shape\<close>

text \<open>
  On grid arrays of one shape no evaluator raises, and each returned array is the table
  of the cell-by-cell expression of the source, in the float operations and in the order
  of the source.
\<close>

lemma get_ss_info_mk:
  "get_ss_info F s xs ys (mk m n x) (mk m n y) =
     Inr (mk m n (\<lambda>i j. fdiv F (fmul F (fdiv F s (two_pi F)) (fsub F (x i j) xs))
                            (fadd F (fsquare F (fsub F (x i j) xs)) (fsquare F (fsub F (y i j) ys)))),
          mk m n (\<lambda>i j. fdiv F (fmul F (fdiv F s (two_pi F)) (fsub F (y i j) ys))
                            (fadd F (fsquare F (fsub F (x i j) xs)) (fsquare F (fsub F (y i j) ys)))),
          mk m n (\<lambda>i j. fmul F (fdiv F s (two_pi F))
                            (farctan2 F (fsub F (y i j) ys) (fsub F (x i j) xs))))"
  by (simp add: get_ss_info_def dist2_def bindE_def)

lemma get_vortex_info_mk:
  "get_vortex_info F s xv yv (mk m n x) (mk m n y) =
     Inr (mk m n (\<lambda>i j. fdiv F (fmul F (fdiv F s (two_pi F)) (fsub F (y i j) yv))
                            (fadd F (fsquare F (fsub F (x i j) xv)) (fsquare F (fsub F (y i j) yv)))),
          mk m n (\<lambda>i j. fdiv F (fmul F (fdiv F (fneg F s) (two_pi F)) (fsub F (x i j) xv))
                            (fadd F (fsquare F (fsub F (x i j) xv)) (fsquare F (fsub F (y i j) yv)))),
          mk m n (\<lambda>i j. fmul F (fdiv F s (four_pi F))
                            (flog F (fsqrt F (fadd F (fsquare F (fsub F (x i j) xv))
                                                     (fsquare F (fsub F (y i j) yv)))))))"
  by (simp add: get_vortex_info_def dist2_def bindE_def)

lemma get_doublet_info_mk:
  "get_doublet_info F s xd yd (mk m n x) (mk m n y) =
     Inr (mk m n (\<lambda>i j. fdiv F (fmul F (fdiv F (fneg F s) (two_pi F))
                                  (fsub F (fsquare F (fsub F (x i j) xd)) (fsquare F (fsub F (y i j) yd))))
                            (fsquare F (fadd F (fsquare F (fsub F (x i j) xd))
                                               (fsquare F (fsub F (y i j) yd))))),
          mk m n (\<lambda>i j. fdiv F (fmul F (fmul F (fmul F (fdiv F (fneg F s) (two_pi F)) (fnat F 2))
                                                (fsub F (x i j) xd))
                                        (fsub F (y i j) yd))
                            (fsquare F (fadd F (fsquare F (fsub F (x i j) xd))
                                               (fsquare F (fsub F (y i j) yd))))),
          mk m n (\<lambda>i j. fdiv F (fmul F (fdiv F (fneg F s) (two_pi F)) (fsub F (y i j) yd))
                            (fadd F (fsquare F (fsub F (x i j) xd)) (fsquare F (fsub F (y i j) yd)))))"
  by (simp add: get_doublet_info_def dist2_def bindE_def)

lemma full_nat: "full c (int k) (int k) = Inr (mk k k (\<lambda>i j. c))"
  by (simp add: full_def)

lemma get_freestream_info_mk:
  "get_freestream_info F U al (mk m n x) (mk m n y) (int k) =
     Inr (mk k k (\<lambda>i j. fmul F (fmul F U (fcos F al)) (fnat F 1)),
          mk k k (\<lambda>i j. fmul F (fmul F U (fsin F al)) (fnat F 0)),
          mk m n (\<lambda>i j. fmul F U (fsub F (fmul F (y i j) (fcos F al)) (fmul F (x i j) (fsin F al)))))"
  by (simp add: get_freestream_info_def ones_def zeros_def full_nat bindE_def)

lemma get_velocity_infinite_vortices_mk:
  assumes "2 \<le> length xv"
  shows "get_velocity_infinite_vortices F g (mk m n x) (mk m n y) xv =
     Inr (mk m n (\<lambda>i j. fmul F (fdiv F g (fmul F (fnat F 2) (fsub F (xv ! 1) (xv ! 0))))
                    (fdiv F (fsinh F (fmul F (fdiv F (two_pi F) (fsub F (xv ! 1) (xv ! 0))) (y i j)))
                          (fsub F (fcosh F (fmul F (fdiv F (two_pi F) (fsub F (xv ! 1) (xv ! 0))) (y i j)))
                                  (fcos F (fmul F (fdiv F (two_pi F) (fsub F (xv ! 1) (xv ! 0))) (x i j)))))),
          mk m n (\<lambda>i j. fmul F (fneg F (fdiv F g (fmul F (fnat F 2) (fsub F (xv ! 1) (xv ! 0)))))
                    (fdiv F (fsin F (fmul F (fdiv F (two_pi F) (fsub F (xv ! 1) (xv ! 0))) (x i j)))
                          (fsub F (fcosh F (fmul F (fdiv F (two_pi F) (fsub F (xv ! 1) (xv ! 0))) (y i j)))
                                  (fcos F (fmul F (fdiv F (two_pi F) (fsub F (xv ! 1) (xv ! 0))) (x i j)))))))"
  using assms
  by (simp add: get_velocity_infinite_vortices_def Let_def bindE_def)

text \<open>
  The methods of a Source compute what \<open>get_ss_info\<close> computes, and raise where it raises.
\<close>

lemma Source_run_eq: "Source_run F s x y X Y = get_ss_info F s x y X Y"
  by (simp add: Source_run_def get_ss_info_def Source_velocity_def Source_stream_function_def
      Source_init_def Source_fields_def bindE_def split: sum.splits)

text \<open>
  The velocity of a Vortex is the velocity that \<open>get_vortex_info\<close> returns; the stream
  functions are two different expressions.
\<close>

lemma Vortex_run_uv:
  "res_u (Vortex_run F s x y X Y) = res_u (get_vortex_info F s x y X Y)"
  "res_v (Vortex_run F s x y X Y) = res_v (get_vortex_info F s x y X Y)"
  by (simp_all add: Vortex_run_def get_vortex_info_def Vortex_velocity_def Vortex_stream_function_def
      Vortex_init_def Vortex_fields_def bindE_def res_u_def res_v_def split: sum.splits)

lemma Vortex_run_mk:
  "Vortex_run F s xv yv (mk m n x) (mk m n y) =
     Inr (mk m n (\<lambda>i j. fdiv F (fmul F (fdiv F s (two_pi F)) (fsub F (y i j) yv))
                            (fadd F (fsquare F (fsub F (x i j) xv)) (fsquare F (fsub F (y i j) yv)))),
          mk m n (\<lambda>i j. fdiv F (fmul F (fdiv F (fneg F s) (two_pi F)) (fsub F (x i j) xv))
                            (fadd F (fsquare F (fsub F (x i j) xv)) (fsquare F (fsub F (y i j) yv)))),
          mk m n (\<lambda>i j. fmul F (fdiv F (fneg F s) (four_pi F))
                            (flog F (fadd F (fsquare F (fsub F (x i j) xv))
                                            (fsquare F (fsub F (y i j) yv))))))"
  by (simp add: Vortex_run_def Vortex_velocity_def Vortex_stream_function_def
      Vortex_init_def Vortex_fields_def dist2_def bindE_def)

subsection \<open>The arithmetic of the reals\<close>

lemma exact_sel [simp]:
  "fnat exact n = Fin (real n)" "fpi exact = Fin pi" "fneg exact = exact_neg"
  "fadd exact = exact_add" "fsub exact = exact_sub" "fmul exact = exact_mul"
  "fdiv exact = exact_div" "fsqrt exact = exact_sqrt" "flog exact = exact_log"
  "fcos exact = exact_cos" "fsin exact = exact_sin" "fsinh exact = exact_sinh"
  "fcosh exact = exact_cosh" "farctan2 exact = exact_arctan2"
  "iszero exact a = (a = Fin 0)" "isfinite exact = exact_isfinite"
  "isnan exact a = (a = NaN)" "isinf exact a = (a = PInf \<or> a = NInf)"
  by (simp_all add: exact_def)

lemma exact_sub_Fin [simp]: "exact_sub (Fin a) (Fin b) = Fin (a - b)"
  by (simp add: exact_sub_def)

lemma fsquare_exact [simp]: "fsquare exact (Fin a) = Fin (a * a)"
  by (simp add: fsquare_def)

lemma two_pi_exact [simp]: "two_pi exact = Fin (2 * pi)"
  by (simp add: two_pi_def)

lemma four_pi_exact [simp]: "four_pi exact = Fin (4 * pi)"
  by (simp add: four_pi_def)

lemma isfinite_inf_signed [simp]: "exact_isfinite (inf_signed a) = False"
  by (simp add: inf_signed_def)

lemma inf_signed_0 [simp]: "inf_signed 0 = NaN"
  by (simp add: inf_signed_def)

subsection \<open>The two-argument arctangent\<close>

text \<open>
  \<open>atan2 y x\<close> is the principal argument of the complex number \<open>x + i y\<close>: the angle
  \<open>t\<close> in \<open>(-pi, pi]\<close> with \<open>x = r cos t\<close> and \<open>y = r sin t\<close>, and 0 at the origin.
\<close>

lemma sqrt_ratio:
  fixes x y :: real
  assumes "x \<noteq> 0"
  shows "sqrt (1 + (y / x)\<^sup>2) = sqrt (x\<^sup>2 + y\<^sup>2) / \<bar>x\<bar>"
proof -
  have "1 + (y / x)\<^sup>2 = (x\<^sup>2 + y\<^sup>2) / x\<^sup>2"
    using assms by (simp add: field_simps power2_eq_square)
  then show ?thesis
    by (simp add: real_sqrt_divide)
qed

lemma cos_arctan_ratio:
  fixes x y :: real
  assumes "x \<noteq> 0"
  shows "cos (arctan (y / x)) = \<bar>x\<bar> / sqrt (x\<^sup>2 + y\<^sup>2)"
  using assms by (simp add: cos_arctan sqrt_ratio)

lemma sin_arctan_ratio:
  fixes x y :: real
  assumes "x \<noteq> 0"
  shows "sin (arctan (y / x)) = y / x * \<bar>x\<bar> / sqrt (x\<^sup>2 + y\<^sup>2)"
  using assms by (simp add: sin_arctan sqrt_ratio)

lemma atan2_cos_sin:
  assumes "(x, y) \<noteq> (0, 0)"
  shows "cos (atan2 y x) = x / sqrt (x\<^sup>2 + y\<^sup>2)"
    and "sin (atan2 y x) = y / sqrt (x\<^sup>2 + y\<^sup>2)"
proof -
  consider "0 < x" | "x < 0" | "x = 0" "0 < y" | "x = 0" "y < 0"
    using assms by force
  then have "cos (atan2 y x) = x / sqrt (x\<^sup>2 + y\<^sup>2) \<and> sin (atan2 y x) = y / sqrt (x\<^sup>2 + y\<^sup>2)"
  proof cases
    case 1
    then show ?thesis
      by (simp add: atan2_def cos_arctan_ratio sin_arctan_ratio)
  next
    case 2
    then show ?thesis
      by (simp add: atan2_def cos_arctan_ratio sin_arctan_ratio cos_diff sin_diff cos_add sin_add)
  next
    case 3
    then show ?thesis
      by (simp add: atan2_def)
  next
    case 4
    then show ?thesis
      by (simp add: atan2_def real_sqrt_abs)
  qed
  then show "cos (atan2 y x) = x / sqrt (x\<^sup>2 + y\<^sup>2)"
    and "sin (atan2 y x) = y / sqrt (x\<^sup>2 + y\<^sup>2)"
    by simp_all
qed

lemma atan2_range: "- pi < atan2 y x \<and> atan2 y x \<le> pi"
proof -
  have a: "- (pi / 2) < arctan (y / x)" "arctan (y / x) < pi / 2"
    by (rule arctan_lbound, rule arctan_ubound)
  consider "0 < x" | "x < 0" "y < 0" | "x < 0" "0 \<le> y" | "x = 0"
    by force
  then show ?thesis
  proof cases
    case 1
    then show ?thesis using a by (simp add: atan2_def)
  next
    case 2
    then have "0 < y / x" by (simp add: zero_less_divide_iff)
    then have "0 < arctan (y / x)" by (simp add: arctan_less_zero_iff)
    then show ?thesis using 2 a by (simp add: atan2_def)
  next
    case 3
    then have "y / x \<le> 0" by (simp add: divide_le_0_iff)
    then have "arctan (y / x) \<le> 0" by simp
    then show ?thesis using 3 a by (simp add: atan2_def)
  next
    case 4
    then show ?thesis
      by (simp add: atan2_def) (use pi_gt_zero in linarith)
  qed
qed

lemma atan2_Arg: "atan2 y x = Arg (Complex x y)"
proof (cases "(x, y) = (0, 0)")
  case True
  then show ?thesis by (simp add: atan2_def Arg_zero zero_complex.code [symmetric])
next
  case False
  have "sgn (Complex x y) = cis (atan2 y x)"
    using atan2_cos_sin [OF False]
    by (simp add: complex_eq_iff sgn_div_norm cmod_def divide_inverse mult.commute)
  then show ?thesis
    using atan2_range [of y x] by (simp add: cis_Arg_unique)
qed

subsection \<open>The facts of IEEE arithmetic in the arithmetic of the reals\<close>

lemma ieee_one_zero_exact: "ieee_one_zero exact"
proof -
  have a: "exact_mul a (Fin 1) = a" for a
    by (cases a) (simp_all add: inf_signed_def)
  have b: "exact_isfinite a \<Longrightarrow> exact_mul a (Fin 0) = Fin 0" for a
    by (cases a) simp_all
  have c: "exact_isfinite a \<Longrightarrow> exact_isfinite b \<Longrightarrow> exact_isfinite (exact_mul a (exact_sin b))"
    for a b
    by (cases a; cases b) simp_all
  show ?thesis
    using a b c by (simp add: ieee_one_zero_def)
qed

lemma nat_exact_exact: "nat_exact exact"
  by (auto simp add: nat_exact_def of_nat_diff real_of_nat_div)

lemma ieee_special_exact: "ieee_special exact"
proof -
  have m0: "exact_mul a (Fin 0) = Fin 0 \<or> exact_mul a (Fin 0) = NaN" for a
    by (cases a) simp_all
  have m1: "exact_isfinite a \<Longrightarrow> exact_mul a (Fin 0) = Fin 0" for a
    by (cases a) simp_all
  have d: "a = Fin 0 \<or> a = NaN \<Longrightarrow> exact_div a (Fin 0) = NaN" for a
    by auto
  have mi: "b = PInf \<or> b = NInf \<Longrightarrow> \<not> exact_isfinite (exact_mul a b)" for a b
    by (cases a) auto
  show ?thesis
    unfolding ieee_special_def
    using m0 m1 d mi by (simp add: atan2_def)
qed

section \<open>The claims\<close>

subsection \<open>Source and sink\<close>

text \<open>
  C5. For every strength \<open>L\<close>, every position \<open>(xs, ys)\<close> and every cell of a grid, with
  \<open>x\<close> and \<open>y\<close> the coordinates held there, the source/sink evaluators return in that
  cell \<open>u = L/(2 pi) (x - xs)/r\<^sup>2\<close>, \<open>v = L/(2 pi) (y - ys)/r\<^sup>2\<close> and
  \<open>psi = L/(2 pi) atan2 (y - ys) (x - xs)\<close>, where \<open>r\<^sup>2 = (x - xs)\<^sup>2 + (y - ys)\<^sup>2\<close>: the free
  function \<open>get_ss_info\<close>, and the methods of the class Source. The formulas are those of
  the table, each operation a float operation, taken from left to right as the source
  writes them; they hold in every arithmetic and at every cell, the grid points other
  than \<open>(xs, ys)\<close> among them.
\<close>

theorem source_sink_formulas:
  assumes "wellformed X" "wellformed Y" "shape X = shape Y"
    and "i < nrows X" "j < ncols X"
  shows "(let x = cell X i j; y = cell Y i j;
              r2 = fadd F (fsquare F (fsub F x xs)) (fsquare F (fsub F y ys))
          in cells3 (get_ss_info F L xs ys X Y) i j =
               (Some (fdiv F (fmul F (fdiv F L (two_pi F)) (fsub F x xs)) r2),
                Some (fdiv F (fmul F (fdiv F L (two_pi F)) (fsub F y ys)) r2),
                Some (fmul F (fdiv F L (two_pi F)) (farctan2 F (fsub F y ys) (fsub F x xs))))
           \<and> cells3 (Source_run F L xs ys X Y) i j =
               (Some (fdiv F (fmul F (fdiv F L (two_pi F)) (fsub F x xs)) r2),
                Some (fdiv F (fmul F (fdiv F L (two_pi F)) (fsub F y ys)) r2),
                Some (fmul F (fdiv F L (two_pi F)) (farctan2 F (fsub F y ys) (fsub F x xs)))))"
proof -
  note XY = same_shape_mk [OF assms(1-3)]
  have "cells3 (get_ss_info F L xs ys
          (mk (nrows X) (ncols X) (cell X)) (mk (nrows X) (ncols X) (cell Y))) i j =
        (Some (fdiv F (fmul F (fdiv F L (two_pi F)) (fsub F (cell X i j) xs))
                 (fadd F (fsquare F (fsub F (cell X i j) xs)) (fsquare F (fsub F (cell Y i j) ys)))),
         Some (fdiv F (fmul F (fdiv F L (two_pi F)) (fsub F (cell Y i j) ys))
                 (fadd F (fsquare F (fsub F (cell X i j) xs)) (fsquare F (fsub F (cell Y i j) ys)))),
         Some (fmul F (fdiv F L (two_pi F))
                 (farctan2 F (fsub F (cell Y i j) ys) (fsub F (cell X i j) xs))))"
    using assms(4,5)
    by (simp add: get_ss_info_mk cells3_def res_u_def res_v_def res_psi_def opt_cell_def)
  then show ?thesis
    using XY by (simp add: Source_run_eq Let_def)
qed

theorem source_sink_formulas_witness:
  "cells3 (get_ss_info exact (Fin 1) (Fin 0) (Fin 0) (single (Fin 1)) (single (Fin 0))) 0 0 =
     (Some (Fin (1 / (2 * pi))), Some (Fin 0), Some (Fin 0))
   \<and> cells3 (Source_run exact (Fin 1) (Fin 0) (Fin 0) (single (Fin 1)) (single (Fin 0))) 0 0 =
     (Some (Fin (1 / (2 * pi))), Some (Fin 0), Some (Fin 0))"
  using source_sink_formulas [of "single (Fin 1)" "single (Fin 0)" 0 0 exact "Fin 0" "Fin 0" "Fin 1"]
  by (simp add: Let_def atan2_def)

subsection \<open>Doublet\<close>

text \<open>
  C8. For every doublet moment \<open>k\<close>, every position \<open>(xd, yd)\<close> and every cell of a grid,
  with \<open>x\<close> and \<open>y\<close> the coordinates held there, \<open>get_doublet_info\<close> returns in that cell
  \<open>u = -k/(2 pi) ((x - xd)\<^sup>2 - (y - yd)\<^sup>2)/r\<^sup>4\<close>, \<open>v = -k/(2 pi) 2 (x - xd) (y - yd)/r\<^sup>4\<close>
  and \<open>psi = -k/(2 pi) (y - yd)/r\<^sup>2\<close>, where \<open>r\<^sup>2 = (x - xd)\<^sup>2 + (y - yd)\<^sup>2\<close> and \<open>r\<^sup>4\<close> is
  its square. The formulas are those of the table, each operation a float operation, taken
  from left to right as the source writes them; they hold in every arithmetic and at every
  cell, the grid points other than \<open>(xd, yd)\<close> among them.
\<close>

theorem doublet_formulas:
  assumes "wellformed X" "wellformed Y" "shape X = shape Y"
    and "i < nrows X" "j < ncols X"
  shows "(let dx = fsub F (cell X i j) xd; dy = fsub F (cell Y i j) yd;
              c = fdiv F (fneg F k) (two_pi F);
              r2 = fadd F (fsquare F dx) (fsquare F dy)
          in cells3 (get_doublet_info F k xd yd X Y) i j =
               (Some (fdiv F (fmul F c (fsub F (fsquare F dx) (fsquare F dy))) (fsquare F r2)),
                Some (fdiv F (fmul F (fmul F (fmul F c (fnat F 2)) dx) dy) (fsquare F r2)),
                Some (fdiv F (fmul F c dy) r2)))"
proof -
  note XY = same_shape_mk [OF assms(1-3)]
  have "(let dx = fsub F (cell X i j) xd; dy = fsub F (cell Y i j) yd;
              c = fdiv F (fneg F k) (two_pi F);
              r2 = fadd F (fsquare F dx) (fsquare F dy)
          in cells3 (get_doublet_info F k xd yd
               (mk (nrows X) (ncols X) (cell X)) (mk (nrows X) (ncols X) (cell Y))) i j =
               (Some (fdiv F (fmul F c (fsub F (fsquare F dx) (fsquare F dy))) (fsquare F r2)),
                Some (fdiv F (fmul F (fmul F (fmul F c (fnat F 2)) dx) dy) (fsquare F r2)),
                Some (fdiv F (fmul F c dy) r2)))"
    using assms(4,5)
    by (simp add: get_doublet_info_mk cells3_def res_u_def res_v_def res_psi_def opt_cell_def Let_def)
  then show ?thesis
    using XY by simp
qed

theorem doublet_formulas_witness:
  "cells3 (get_doublet_info exact (Fin 1) (Fin 0) (Fin 0) (single (Fin 2)) (single (Fin 1))) 0 0 =
     (Some (Fin (- (3 / (50 * pi)))), Some (Fin (- (2 / (25 * pi)))), Some (Fin (- (1 / (10 * pi)))))"
  using doublet_formulas [of "single (Fin 2)" "single (Fin 1)" 0 0 exact "Fin 0" "Fin 0" "Fin 1"]
  by (simp add: Let_def)

subsection \<open>Uniform freestream\<close>

text \<open>
  C4. For every speed \<open>U\<close>, every angle \<open>alpha\<close> and grid arrays of shape \<open>(n, n)\<close>,
  \<open>get_freestream_info\<close> called with \<open>N = n\<close> returns three arrays of shape \<open>(n, n)\<close>. In
  every cell \<open>u\<close> is the product of \<open>U cos alpha\<close> and the 1 of \<open>ones((N, N))\<close>, which is
  \<open>U cos alpha\<close> itself; \<open>v\<close> is the product of \<open>U sin alpha\<close> and the 0 of
  \<open>zeros((N, N))\<close>, which for a finite speed and a finite angle is zero whatever the
  angle; and \<open>psi\<close> is \<open>U (y cos alpha - x sin alpha)\<close> at the grid point \<open>(x, y)\<close>, each
  operation a float operation in the order of the source. The products hold in every
  arithmetic; that they are \<open>U cos alpha\<close> and zero rests on the facts \<open>ieee_one_zero\<close>.
\<close>

theorem freestream_formulas:
  assumes "wellformed X" "wellformed Y" "shape X = (n, n)" "shape Y = (n, n)"
    and "i < n" "j < n"
  shows "cells3 (get_freestream_info F U alpha X Y (int n)) i j =
           (Some (fmul F (fmul F U (fcos F alpha)) (fnat F 1)),
            Some (fmul F (fmul F U (fsin F alpha)) (fnat F 0)),
            Some (fmul F U (fsub F (fmul F (cell Y i j) (fcos F alpha))
                                   (fmul F (cell X i j) (fsin F alpha)))))
       \<and> opt_shape (res_u (get_freestream_info F U alpha X Y (int n))) = Some (n, n)
       \<and> opt_shape (res_v (get_freestream_info F U alpha X Y (int n))) = Some (n, n)
       \<and> opt_shape (res_psi (get_freestream_info F U alpha X Y (int n))) = Some (n, n)
       \<and> (ieee_one_zero F \<longrightarrow>
            opt_cell (res_u (get_freestream_info F U alpha X Y (int n))) i j =
              Some (fmul F U (fcos F alpha)))
       \<and> (ieee_one_zero F \<and> isfinite F U \<and> isfinite F alpha \<longrightarrow>
            cell_is (iszero F) (res_v (get_freestream_info F U alpha X Y (int n))) i j)"
proof -
  have s: "shape X = shape Y" using assms(3,4) by simp
  have d: "nrows X = n" "ncols X = n" using assms(3) by (simp_all add: shape_def)
  note XY = same_shape_mk [OF assms(1,2) s]
  let ?r = "get_freestream_info F U alpha (mk n n (cell X)) (mk n n (cell Y)) (int n)"
  have r: "get_freestream_info F U alpha X Y (int n) = ?r"
    using XY d by simp
  have c: "cells3 ?r i j =
           (Some (fmul F (fmul F U (fcos F alpha)) (fnat F 1)),
            Some (fmul F (fmul F U (fsin F alpha)) (fnat F 0)),
            Some (fmul F U (fsub F (fmul F (cell Y i j) (fcos F alpha))
                                   (fmul F (cell X i j) (fsin F alpha)))))"
    using assms(5,6)
    by (simp add: get_freestream_info_mk cells3_def res_u_def res_v_def res_psi_def opt_cell_def)
  have sh: "opt_shape (res_u ?r) = Some (n, n)" "opt_shape (res_v ?r) = Some (n, n)"
    "opt_shape (res_psi ?r) = Some (n, n)"
    by (simp_all add: get_freestream_info_mk res_u_def res_v_def res_psi_def opt_shape_def)
  have u: "opt_cell (res_u ?r) i j = Some (fmul F U (fcos F alpha))" if "ieee_one_zero F"
    using that assms(5,6)
    by (simp add: get_freestream_info_mk res_u_def opt_cell_def ieee_one_zero_def)
  have v: "cell_is (iszero F) (res_v ?r) i j"
    if "ieee_one_zero F" "isfinite F U" "isfinite F alpha"
    using that assms(5,6)
    by (simp add: get_freestream_info_mk res_v_def cell_is_def ieee_one_zero_def)
  show ?thesis
    unfolding r using c sh u v by simp
qed

theorem freestream_formulas_witness:
  "cells3 (get_freestream_info exact (Fin 2) (Fin 0) (single (Fin 3)) (single (Fin 5)) 1) 0 0 =
     (Some (Fin 2), Some (Fin 0), Some (Fin 10))
   \<and> opt_shape (res_u (get_freestream_info exact (Fin 2) (Fin 0) (single (Fin 3)) (single (Fin 5)) 1)) =
       Some (1, 1)
   \<and> cell_is (iszero exact)
       (res_v (get_freestream_info exact (Fin 2) (Fin 0) (single (Fin 3)) (single (Fin 5)) 1)) 0 0"
  using freestream_formulas [of "single (Fin 3)" "single (Fin 5)" 1 0 0 exact "Fin 2" "Fin 0"]
    ieee_one_zero_exact
  by simp

subsection \<open>Infinite row of vortices\<close>

text \<open>
  C7. For every circulation \<open>gamma\<close>, grid arrays \<open>X\<close>, \<open>Y\<close> and array \<open>x_vortices\<close> of at
  least two entries, \<open>get_velocity_infinite_vortices\<close> takes \<open>a = x_vortices[1] - x_vortices[0]\<close>
  and \<open>c = 2 pi / a\<close>, and returns the pair (there is no third component) of
  \<open>u = +(gamma/(2a)) sinh(cY)/(cosh(cY) - cos(cX))\<close> and
  \<open>v = -(gamma/(2a)) sin(cX)/(cosh(cY) - cos(cX))\<close>, cell by cell: each operation a float
  operation, in the order of the source, in every arithmetic and at every cell.
\<close>

theorem infinite_vortices_formulas:
  assumes "wellformed X" "wellformed Y" "shape X = shape Y"
    and "2 \<le> length x_vortices"
    and "i < nrows X" "j < ncols X"
  shows "(let a = fsub F (x_vortices ! 1) (x_vortices ! 0); c = fdiv F (two_pi F) a;
              x = cell X i j; y = cell Y i j
          in opt_cell (res_fst (get_velocity_infinite_vortices F gamma X Y x_vortices)) i j =
               Some (fmul F (fdiv F gamma (fmul F (fnat F 2) a))
                       (fdiv F (fsinh F (fmul F c y))
                               (fsub F (fcosh F (fmul F c y)) (fcos F (fmul F c x)))))
           \<and> opt_cell (res_snd (get_velocity_infinite_vortices F gamma X Y x_vortices)) i j =
               Some (fmul F (fneg F (fdiv F gamma (fmul F (fnat F 2) a)))
                       (fdiv F (fsin F (fmul F c x))
                               (fsub F (fcosh F (fmul F c y)) (fcos F (fmul F c x))))))"
proof -
  note XY = same_shape_mk [OF assms(1-3)]
  let ?X = "mk (nrows X) (ncols X) (cell X)" and ?Y = "mk (nrows X) (ncols X) (cell Y)"
  have "(let a = fsub F (x_vortices ! 1) (x_vortices ! 0); c = fdiv F (two_pi F) a;
              x = cell X i j; y = cell Y i j
          in opt_cell (res_fst (get_velocity_infinite_vortices F gamma ?X ?Y x_vortices)) i j =
               Some (fmul F (fdiv F gamma (fmul F (fnat F 2) a))
                       (fdiv F (fsinh F (fmul F c y))
                               (fsub F (fcosh F (fmul F c y)) (fcos F (fmul F c x)))))
           \<and> opt_cell (res_snd (get_velocity_infinite_vortices F gamma ?X ?Y x_vortices)) i j =
               Some (fmul F (fneg F (fdiv F gamma (fmul F (fnat F 2) a)))
                       (fdiv F (fsin F (fmul F c x))
                               (fsub F (fcosh F (fmul F c y)) (fcos F (fmul F c x))))))"
    using assms(5,6)
    by (simp add: get_velocity_infinite_vortices_mk [OF assms(4)] Let_def res_fst_def res_snd_def
        opt_cell_def)
  then show ?thesis
    using XY by simp
qed

theorem infinite_vortices_formulas_witness:
  "opt_cell (res_fst (get_velocity_infinite_vortices exact (Fin 1) (single (Fin 0))
      (single (Fin 1)) [Fin 0, Fin 1])) 0 0 = Some (Fin (sinh (2 * pi) / (2 * (cosh (2 * pi) - 1))))
   \<and> opt_cell (res_snd (get_velocity_infinite_vortices exact (Fin 1) (single (Fin 0))
      (single (Fin 1)) [Fin 0, Fin 1])) 0 0 = Some (Fin 0)"
  using infinite_vortices_formulas [where X = "single (Fin 0)" and Y = "single (Fin 1)"
      and x_vortices = "[Fin 0, Fin 1]" and i = 0 and j = 0 and gamma = "Fin 1" and F = exact]
  by (simp add: Let_def)

subsection \<open>Grid generator\<close>

text \<open>
  For at least two samples \<open>linspace\<close> returns the samples \<open>j * step + start\<close>, the last of
  them replaced by \<open>stop\<close>.
\<close>

lemma map_upd_last:
  assumes "0 < n"
  shows "(map f [0..<n])[n - 1 := b] = map (\<lambda>j. if j = n - 1 then b else f j) [0..<n]"
  by (rule nth_equalityI) (simp_all add: nth_list_update)

lemma linspace_samples:
  assumes "2 \<le> n"
  shows "linspace F a b (int n) =
           Inr (map (\<lambda>j. if j = n - 1 then b
                          else fadd F (if iszero F (fdiv F (fsub F b a) (fnat F (n - 1)))
                                       then fmul F (fdiv F (fnat F j) (fnat F (n - 1))) (fsub F b a)
                                       else fmul F (fnat F j) (fdiv F (fsub F b a) (fnat F (n - 1)))) a)
                 [0..<n])"
proof -
  have n: "0 < n" "\<not> int n < 0" "0 < int n - 1" "1 < int n" "nat (int n) = n"
    using assms by simp_all
  show ?thesis
  proof (cases "iszero F (fdiv F (fsub F b a) (fnat F (n - 1)))")
    case True
    then show ?thesis
      unfolding linspace_def Let_def
      by (simp only: n if_True if_False map_map comp_def map_upd_last [OF n(1)])
  next
    case False
    then show ?thesis
      unfolding linspace_def Let_def
      by (simp only: n if_True if_False map_map comp_def map_upd_last [OF n(1)])
  qed
qed

lemma meshgrid_map:
  "meshgrid (map f [0..<n]) (map g [0..<k]) = (mk k n (\<lambda>i j. f j), mk k n (\<lambda>i j. g i))"
  by (auto simp add: meshgrid_def intro!: mk_cong)

lemma create_grid_samples:
  assumes "2 \<le> n"
  shows "create_grid F (int n) xa xb ya yb =
           Inr (mk n n (\<lambda>i j. if j = n - 1 then xb
                          else fadd F (if iszero F (fdiv F (fsub F xb xa) (fnat F (n - 1)))
                                       then fmul F (fdiv F (fnat F j) (fnat F (n - 1))) (fsub F xb xa)
                                       else fmul F (fnat F j) (fdiv F (fsub F xb xa) (fnat F (n - 1)))) xa),
                mk n n (\<lambda>i j. if i = n - 1 then yb
                          else fadd F (if iszero F (fdiv F (fsub F yb ya) (fnat F (n - 1)))
                                       then fmul F (fdiv F (fnat F i) (fnat F (n - 1))) (fsub F yb ya)
                                       else fmul F (fnat F i) (fdiv F (fsub F yb ya) (fnat F (n - 1)))) ya))"
  by (simp add: create_grid_def linspace_samples [OF assms] bindE_def meshgrid_map)

lemma upt_5: "[0..<5] = [0, 1, 2, 3, 4]"
  by (simp add: upt_rec)

text \<open>
  Where the arithmetic of small natural numbers is exact, the samples of
  \<open>linspace(0, 4, 5)\<close> are the doubles of 0, 1, 2, 3 and 4.
\<close>

lemma nat_exact_rules:
  assumes "nat_exact F"
  shows "n \<le> m \<Longrightarrow> m < 2 ^ 53 \<Longrightarrow> fsub F (fnat F m) (fnat F n) = fnat F (m - n)"
    and "0 < n \<Longrightarrow> n dvd m \<Longrightarrow> m < 2 ^ 53 \<Longrightarrow> fdiv F (fnat F m) (fnat F n) = fnat F (m div n)"
    and "m * n < 2 ^ 53 \<Longrightarrow> fmul F (fnat F m) (fnat F n) = fnat F (m * n)"
    and "m + n < 2 ^ 53 \<Longrightarrow> fadd F (fnat F m) (fnat F n) = fnat F (m + n)"
    and "m < 2 ^ 53 \<Longrightarrow> iszero F (fnat F m) = (m = 0)"
  using assms unfolding nat_exact_def by blast+

lemma create_grid_5:
  assumes "nat_exact F"
  shows "opt_rows (res_fst (create_grid F 5 (fnat F 0) (fnat F 4) (fnat F 0) (fnat F 4))) =
           Some (replicate 5 (map (fnat F) [0, 1, 2, 3, 4]))"
    and "opt_columns (res_snd (create_grid F 5 (fnat F 0) (fnat F 4) (fnat F 0) (fnat F 4))) =
           Some (replicate 5 (map (fnat F) [0, 1, 2, 3, 4]))"
proof -
  note R = nat_exact_rules [OF assms]
  have sub: "fsub F (fnat F 4) (fnat F 0) = fnat F 4"
    using R(1) [of 0 4] by simp
  have dv: "fdiv F (fnat F 4) (fnat F 4) = fnat F (Suc 0)"
    using R(2) [of 4 4] by simp
  have nz: "\<not> iszero F (fnat F (Suc 0))"
    using R(5) [of "Suc 0"] by simp
  have mul: "fmul F (fnat F k) (fnat F (Suc 0)) = fnat F k" if "k < 5" for k
    using R(3) [of k "Suc 0"] that by simp
  have add: "fadd F (fnat F k) (fnat F 0) = fnat F k" if "k < 5" for k
    using R(4) [of k 0] that by simp
  have "create_grid F (int 5) (fnat F 0) (fnat F 4) (fnat F 0) (fnat F 4) =
          Inr (mk 5 5 (\<lambda>i j. fnat F j), mk 5 5 (\<lambda>i j. fnat F i))"
    by (subst create_grid_samples) (auto intro!: mk_cong simp add: sub dv nz mul add)
  then have g: "create_grid F 5 (fnat F 0) (fnat F 4) (fnat F 0) (fnat F 4) =
          Inr (mk 5 5 (\<lambda>i j. fnat F j), mk 5 5 (\<lambda>i j. fnat F i))"
    by simp
  show "opt_rows (res_fst (create_grid F 5 (fnat F 0) (fnat F 4) (fnat F 0) (fnat F 4))) =
           Some (replicate 5 (map (fnat F) [0, 1, 2, 3, 4]))"
    unfolding g by (simp add: opt_rows_def res_fst_def mk_def upt_5 eval_nat_numeral)
  show "opt_columns (res_snd (create_grid F 5 (fnat F 0) (fnat F 4) (fnat F 0) (fnat F 4))) =
           Some (replicate 5 (map (fnat F) [0, 1, 2, 3, 4]))"
    unfolding g by (simp add: opt_columns_def columns_def res_snd_def mk_def upt_5 eval_nat_numeral)
qed

text \<open>
  C6. For every \<open>N > 1\<close> and all bounds, \<open>create_grid\<close> returns two arrays of shape
  \<open>(N, N)\<close> with \<open>X[i,j] = x_start + j (x_end - x_start)/(N - 1)\<close>, the abscissa varying
  along a row, and \<open>Y[i,j] = y_start + i (y_end - y_start)/(N - 1)\<close>, the ordinate varying
  down a column; and \<open>create_grid(5, 0, 4, 0, 4)\<close> returns \<open>X\<close> with every row equal to
  \<open>[0,1,2,3,4]\<close> and \<open>Y\<close> with every column equal to \<open>[0,1,2,3,4]\<close>. In float operations
  the sample \<open>k\<close> between \<open>start\<close> and \<open>stop\<close> is \<open>k * step + start\<close> with
  \<open>step = (stop - start)/(N - 1)\<close>; the last sample is \<open>stop\<close> itself, and where the step
  is zero the product is taken as \<open>(k/(N - 1)) * (stop - start)\<close>. This holds in every
  arithmetic; the grid of \<open>create_grid(5, 0, 4, 0, 4)\<close> rests on the exact arithmetic of
  small natural numbers, \<open>nat_exact\<close>.
\<close>

theorem create_grid_formulas:
  assumes "1 < N" "i < nat N" "j < nat N"
  shows "(let n = nat N;
              sample = (\<lambda>start stop k.
                 if k = n - 1 then stop
                 else fadd F (if iszero F (fdiv F (fsub F stop start) (fnat F (n - 1)))
                              then fmul F (fdiv F (fnat F k) (fnat F (n - 1))) (fsub F stop start)
                              else fmul F (fnat F k) (fdiv F (fsub F stop start) (fnat F (n - 1))))
                        start)
          in opt_shape (res_fst (create_grid F N x_start x_end y_start y_end)) = Some (n, n)
           \<and> opt_shape (res_snd (create_grid F N x_start x_end y_start y_end)) = Some (n, n)
           \<and> opt_cell (res_fst (create_grid F N x_start x_end y_start y_end)) i j =
               Some (sample x_start x_end j)
           \<and> opt_cell (res_snd (create_grid F N x_start x_end y_start y_end)) i j =
               Some (sample y_start y_end i))
       \<and> (nat_exact F \<longrightarrow>
            opt_rows (res_fst (create_grid F 5 (fnat F 0) (fnat F 4) (fnat F 0) (fnat F 4))) =
              Some (replicate 5 (map (fnat F) [0, 1, 2, 3, 4]))
          \<and> opt_columns (res_snd (create_grid F 5 (fnat F 0) (fnat F 4) (fnat F 0) (fnat F 4))) =
              Some (replicate 5 (map (fnat F) [0, 1, 2, 3, 4])))"
proof -
  define n where "n = nat N"
  have n: "N = int n" "2 \<le> n"
    using assms(1) by (simp_all add: n_def)
  have ij: "i < n" "j < n"
    using assms(2,3) by (simp_all add: n_def)
  have g: "create_grid F N x_start x_end y_start y_end =
             create_grid F (int n) x_start x_end y_start y_end"
    using n(1) by simp
  have "(let sample = (\<lambda>start stop k.
                 if k = n - 1 then stop
                 else fadd F (if iszero F (fdiv F (fsub F stop start) (fnat F (n - 1)))
                              then fmul F (fdiv F (fnat F k) (fnat F (n - 1))) (fsub F stop start)
                              else fmul F (fnat F k) (fdiv F (fsub F stop start) (fnat F (n - 1))))
                        start)
          in opt_shape (res_fst (create_grid F N x_start x_end y_start y_end)) = Some (n, n)
           \<and> opt_shape (res_snd (create_grid F N x_start x_end y_start y_end)) = Some (n, n)
           \<and> opt_cell (res_fst (create_grid F N x_start x_end y_start y_end)) i j =
               Some (sample x_start x_end j)
           \<and> opt_cell (res_snd (create_grid F N x_start x_end y_start y_end)) i j =
               Some (sample y_start y_end i))"
    unfolding g create_grid_samples [OF n(2)]
    using ij by (simp add: res_fst_def res_snd_def opt_shape_def opt_cell_def Let_def)
  then show ?thesis
    using create_grid_5 [of F] by (simp add: n_def Let_def)
qed

theorem create_grid_formulas_witness:
  "opt_shape (res_fst (create_grid exact 3 (Fin 0) (Fin 1) (Fin 0) (Fin 1))) = Some (3, 3)
   \<and> opt_shape (res_snd (create_grid exact 3 (Fin 0) (Fin 1) (Fin 0) (Fin 1))) = Some (3, 3)
   \<and> opt_cell (res_fst (create_grid exact 3 (Fin 0) (Fin 1) (Fin 0) (Fin 1))) 1 2 = Some (Fin 1)
   \<and> opt_cell (res_snd (create_grid exact 3 (Fin 0) (Fin 1) (Fin 0) (Fin 1))) 1 2 = Some (Fin (1 / 2))
   \<and> opt_rows (res_fst (create_grid exact 5 (Fin 0) (Fin 4) (Fin 0) (Fin 4))) =
       Some (replicate 5 [Fin 0, Fin 1, Fin 2, Fin 3, Fin 4])
   \<and> opt_columns (res_snd (create_grid exact 5 (Fin 0) (Fin 4) (Fin 0) (Fin 4))) =
       Some (replicate 5 [Fin 0, Fin 1, Fin 2, Fin 3, Fin 4])"
  using create_grid_formulas [of 3 1 2 exact "Fin 0" "Fin 1" "Fin 0" "Fin 1"] nat_exact_exact
  by (simp add: Let_def)

subsection \<open>The stream function of the free source/sink function\<close>

text \<open>
  C3 states that \<open>get_ss_info\<close> computes its stream function as \<open>L/(4 pi) ln(r\<^sup>2)\<close>,
  through a square root and a logarithm. It does not: for the unit source at the origin
  and the grid point \<open>(2, 0)\<close> the function returns \<open>psi = 0\<close>, and
  \<open>1/(4 pi) ln(2\<^sup>2 + 0\<^sup>2)\<close> is not 0.
\<close>

theorem ss_psi_log_counterexample:
  "opt_cell (res_psi (get_ss_info exact (Fin 1) (Fin 0) (Fin 0) (single (Fin 2)) (single (Fin 0)))) 0 0 =
     Some (Fin 0)
   \<and> Fin 0 \<noteq> Fin (1 / (4 * pi) * ln ((2 - 0)\<^sup>2 + (0 - 0)\<^sup>2))"
  by (simp add: single_mk get_ss_info_mk res_psi_def opt_cell_def atan2_def)

text \<open>
  C3, amended. \<open>get_ss_info\<close> computes its stream function as
  \<open>psi = L/(2 pi) arctan2 (y - ys) (x - xs)\<close>, the form of \<open>Source.stream_function\<close> itself
  and the same array, with no square root and no logarithm, for every strength \<open>L\<close>, every
  position \<open>(xs, ys)\<close> and every grid point, those distinct from \<open>(xs, ys)\<close> among them:
  each operation a float operation, in every arithmetic.
\<close>

theorem ss_psi_atan2:
  assumes "wellformed X" "wellformed Y" "shape X = shape Y"
    and "i < nrows X" "j < ncols X"
  shows "opt_cell (res_psi (get_ss_info F L xs ys X Y)) i j =
           Some (fmul F (fdiv F L (two_pi F))
                   (farctan2 F (fsub F (cell Y i j) ys) (fsub F (cell X i j) xs)))
       \<and> res_psi (get_ss_info F L xs ys X Y) = res_psi (Source_run F L xs ys X Y)"
proof -
  note XY = same_shape_mk [OF assms(1-3)]
  have "opt_cell (res_psi (get_ss_info F L xs ys
          (mk (nrows X) (ncols X) (cell X)) (mk (nrows X) (ncols X) (cell Y)))) i j =
           Some (fmul F (fdiv F L (two_pi F))
                   (farctan2 F (fsub F (cell Y i j) ys) (fsub F (cell X i j) xs)))"
    using assms(4,5)
    by (simp add: get_ss_info_mk res_psi_def opt_cell_def)
  then show ?thesis
    using XY by (simp add: Source_run_eq)
qed

theorem ss_psi_atan2_witness:
  "opt_cell (res_psi (get_ss_info exact (Fin 1) (Fin 0) (Fin 0) (single (Fin 2)) (single (Fin 0)))) 0 0 =
     Some (Fin 0)
   \<and> res_psi (get_ss_info exact (Fin 1) (Fin 0) (Fin 0) (single (Fin 2)) (single (Fin 0))) =
     res_psi (Source_run exact (Fin 1) (Fin 0) (Fin 0) (single (Fin 2)) (single (Fin 0)))"
  using ss_psi_atan2 [of "single (Fin 2)" "single (Fin 0)" 0 0 exact "Fin 1" "Fin 0" "Fin 0"]
  by (simp add: atan2_def Source_run_eq)

subsection \<open>Vortex\<close>

text \<open>
  What the two vortex evaluators compute, in every arithmetic and at every cell. The
  velocities are those of the formula table, \<open>u = +G/(2 pi) (y - y0)/r\<^sup>2\<close> and
  \<open>v = -G/(2 pi) (x - x0)/r\<^sup>2\<close>, in both. The stream function of the class is
  \<open>-G/(4 pi) log(r\<^sup>2)\<close>; the stream function of \<open>get_vortex_info\<close> is
  \<open>+G/(4 pi) log(sqrt(r\<^sup>2))\<close>, of the opposite sign and half the size.
\<close>

lemma vortex_cells:
  assumes "wellformed X" "wellformed Y" "shape X = shape Y"
    and "i < nrows X" "j < ncols X"
  shows "(let dx = fsub F (cell X i j) x0; dy = fsub F (cell Y i j) y0;
              r2 = fadd F (fsquare F dx) (fsquare F dy)
          in cells3 (get_vortex_info F G x0 y0 X Y) i j =
               (Some (fdiv F (fmul F (fdiv F G (two_pi F)) dy) r2),
                Some (fdiv F (fmul F (fdiv F (fneg F G) (two_pi F)) dx) r2),
                Some (fmul F (fdiv F G (four_pi F)) (flog F (fsqrt F r2))))
           \<and> cells3 (Vortex_run F G x0 y0 X Y) i j =
               (Some (fdiv F (fmul F (fdiv F G (two_pi F)) dy) r2),
                Some (fdiv F (fmul F (fdiv F (fneg F G) (two_pi F)) dx) r2),
                Some (fmul F (fdiv F (fneg F G) (four_pi F)) (flog F r2))))"
proof -
  note XY = same_shape_mk [OF assms(1-3)]
  let ?X = "mk (nrows X) (ncols X) (cell X)" and ?Y = "mk (nrows X) (ncols X) (cell Y)"
  have "(let dx = fsub F (cell X i j) x0; dy = fsub F (cell Y i j) y0;
              r2 = fadd F (fsquare F dx) (fsquare F dy)
          in cells3 (get_vortex_info F G x0 y0 ?X ?Y) i j =
               (Some (fdiv F (fmul F (fdiv F G (two_pi F)) dy) r2),
                Some (fdiv F (fmul F (fdiv F (fneg F G) (two_pi F)) dx) r2),
                Some (fmul F (fdiv F G (four_pi F)) (flog F (fsqrt F r2))))
           \<and> cells3 (Vortex_run F G x0 y0 ?X ?Y) i j =
               (Some (fdiv F (fmul F (fdiv F G (two_pi F)) dy) r2),
                Some (fdiv F (fmul F (fdiv F (fneg F G) (two_pi F)) dx) r2),
                Some (fmul F (fdiv F (fneg F G) (four_pi F)) (flog F r2))))"
    using assms(4,5)
    by (simp add: get_vortex_info_mk Vortex_run_mk cells3_def res_u_def res_v_def res_psi_def
        opt_cell_def Let_def)
  then show ?thesis
    using XY by simp
qed

text \<open>
  The point \<open>(1, 0)\<close> of the unit vortex at the origin, in the arithmetic of the reals,
  where \<open>r = 1\<close> and both logarithms vanish: \<open>u = 0\<close>, \<open>v = -1/(2 pi)\<close>, \<open>psi = 0\<close>.
\<close>

lemma vortex_unit_point:
  "cells3 (get_vortex_info exact (Fin 1) (Fin 0) (Fin 0) (single (Fin 1)) (single (Fin 0))) 0 0 =
     (Some (Fin 0), Some (Fin (- (1 / (2 * pi)))), Some (Fin 0))"
  by (simp add: single_mk get_vortex_info_mk cells3_def res_u_def res_v_def res_psi_def
      opt_cell_def)

lemma ln2_ln4: "- 1 / (4 * pi) * ln ((2 - 0)\<^sup>2 + (0 - 0)\<^sup>2) \<noteq> ln 2 / (4 * pi)"
proof -
  have "0 < ln (2::real) / (4 * pi)"
    by simp
  moreover have "- 1 / (4 * pi) * ln (4::real) < 0"
    by (simp add: mult_pos_pos)
  ultimately have "- 1 / (4 * pi) * ln (4::real) \<noteq> ln 2 / (4 * pi)"
    by linarith
  then show ?thesis by simp
qed

text \<open>
  C1 gives the stream function of a vortex as \<open>-G/(4 pi) ln(r\<^sup>2)\<close> for the class and for
  \<open>get_vortex_info\<close> alike. For the unit vortex at the origin and the grid point \<open>(2, 0)\<close>,
  \<open>get_vortex_info\<close> returns \<open>u = 0\<close> and \<open>v = -1/(4 pi)\<close>, as C1 says, and
  \<open>psi = ln 2/(4 pi)\<close>, which is not \<open>-1/(4 pi) ln(2\<^sup>2 + 0\<^sup>2)\<close>.
\<close>

theorem vortex_info_psi_at_2_0:
  "cells3 (get_vortex_info exact (Fin 1) (Fin 0) (Fin 0) (single (Fin 2)) (single (Fin 0))) 0 0 =
     (Some (Fin 0), Some (Fin (- (1 / (4 * pi)))), Some (Fin (ln 2 / (4 * pi))))
   \<and> Fin (ln 2 / (4 * pi)) \<noteq> Fin (- 1 / (4 * pi) * ln ((2 - 0)\<^sup>2 + (0 - 0)\<^sup>2))"
  using ln2_ln4
  by (simp add: single_mk get_vortex_info_mk cells3_def res_u_def res_v_def res_psi_def
      opt_cell_def)

text \<open>
  C2 takes the attributes of an object after \<open>velocity\<close> and \<open>stream_function\<close> to be the
  triple that the free function returns. For a Source they are (\<open>Source_run_eq\<close>). For
  the unit Vortex at the origin and the grid point \<open>(2, 0)\<close> the attributes \<open>u\<close> and \<open>v\<close>
  are those of \<open>get_vortex_info\<close>, and \<open>psi\<close> is \<open>-1/(4 pi) ln 4\<close> in the object and
  \<open>ln 2/(4 pi)\<close> in the triple: the two results differ.
\<close>

theorem vortex_run_differs:
  "res_u (Vortex_run exact (Fin 1) (Fin 0) (Fin 0) (single (Fin 2)) (single (Fin 0))) =
   res_u (get_vortex_info exact (Fin 1) (Fin 0) (Fin 0) (single (Fin 2)) (single (Fin 0)))
   \<and> res_v (Vortex_run exact (Fin 1) (Fin 0) (Fin 0) (single (Fin 2)) (single (Fin 0))) =
   res_v (get_vortex_info exact (Fin 1) (Fin 0) (Fin 0) (single (Fin 2)) (single (Fin 0)))
   \<and> opt_cell (res_psi (Vortex_run exact (Fin 1) (Fin 0) (Fin 0) (single (Fin 2)) (single (Fin 0)))) 0 0 =
       Some (Fin (- 1 / (4 * pi) * ln ((2 - 0)\<^sup>2 + (0 - 0)\<^sup>2)))
   \<and> opt_cell (res_psi (get_vortex_info exact (Fin 1) (Fin 0) (Fin 0) (single (Fin 2)) (single (Fin 0)))) 0 0 =
       Some (Fin (ln 2 / (4 * pi)))
   \<and> Vortex_run exact (Fin 1) (Fin 0) (Fin 0) (single (Fin 2)) (single (Fin 0)) \<noteq>
     get_vortex_info exact (Fin 1) (Fin 0) (Fin 0) (single (Fin 2)) (single (Fin 0))"
proof -
  have a: "opt_cell (res_psi (Vortex_run exact (Fin 1) (Fin 0) (Fin 0) (single (Fin 2)) (single (Fin 0)))) 0 0 =
       Some (Fin (- 1 / (4 * pi) * ln ((2 - 0)\<^sup>2 + (0 - 0)\<^sup>2)))"
    by (simp add: single_mk Vortex_run_mk res_psi_def opt_cell_def)
  have b: "opt_cell (res_psi (get_vortex_info exact (Fin 1) (Fin 0) (Fin 0) (single (Fin 2)) (single (Fin 0)))) 0 0 =
       Some (Fin (ln 2 / (4 * pi)))"
    by (simp add: single_mk get_vortex_info_mk res_psi_def opt_cell_def)
  have "Vortex_run exact (Fin 1) (Fin 0) (Fin 0) (single (Fin 2)) (single (Fin 0)) \<noteq>
     get_vortex_info exact (Fin 1) (Fin 0) (Fin 0) (single (Fin 2)) (single (Fin 0))"
  proof
    assume "Vortex_run exact (Fin 1) (Fin 0) (Fin 0) (single (Fin 2)) (single (Fin 0)) =
     get_vortex_info exact (Fin 1) (Fin 0) (Fin 0) (single (Fin 2)) (single (Fin 0))"
    then have "Some (Fin (- 1 / (4 * pi) * ln ((2 - 0)\<^sup>2 + (0 - 0)\<^sup>2))) = Some (Fin (ln 2 / (4 * pi)))"
      using a b by simp
    then show False using ln2_ln4 by simp
  qed
  then show ?thesis
    using a b by (simp add: Vortex_run_uv)
qed

subsection \<open>A grid point on the singularity\<close>

lemma ieee_special_rules:
  assumes "ieee_special F"
  shows "iszero F a \<Longrightarrow> isfinite F a"
    and "iszero F b \<Longrightarrow> iszero F (fmul F a b) \<or> isnan F (fmul F a b)"
    and "isfinite F a \<Longrightarrow> iszero F b \<Longrightarrow> iszero F (fmul F a b)"
    and "iszero F a \<Longrightarrow> iszero F b \<Longrightarrow> iszero F (fadd F a b)"
    and "iszero F a \<Longrightarrow> iszero F b \<Longrightarrow> iszero F (fsub F a b)"
    and "iszero F a \<or> isnan F a \<Longrightarrow> iszero F b \<Longrightarrow> isnan F (fdiv F a b)"
    and "iszero F a \<Longrightarrow> iszero F (fsqrt F a)"
    and "iszero F a \<Longrightarrow> isinf F (flog F a)"
    and "isinf F b \<Longrightarrow> \<not> isfinite F (fmul F a b)"
    and "iszero F a \<Longrightarrow> iszero F b \<Longrightarrow>
           iszero F (farctan2 F a b) \<or> farctan2 F a b = fpi F \<or> farctan2 F a b = fneg F (fpi F)"
  using assms unfolding ieee_special_def by simp_all

text \<open>
  The values at a cell where both differences \<open>X - x0\<close> and \<open>Y - y0\<close> are zeros: the
  quotients are NaN, the logarithms are infinite, the arctangent is finite.
\<close>

lemma singular_values:
  assumes F: "ieee_special F"
    and dx: "iszero F dx" and dy: "iszero F dy"
  shows "isnan F (fdiv F (fmul F c dx) (fadd F (fsquare F dx) (fsquare F dy)))"
    and "isnan F (fdiv F (fmul F c dy) (fadd F (fsquare F dx) (fsquare F dy)))"
    and "\<not> isfinite F (fmul F c (flog F (fsqrt F (fadd F (fsquare F dx) (fsquare F dy)))))"
    and "\<not> isfinite F (fmul F c (flog F (fadd F (fsquare F dx) (fsquare F dy))))"
    and "isnan F (fdiv F (fmul F c (fsub F (fsquare F dx) (fsquare F dy)))
                         (fsquare F (fadd F (fsquare F dx) (fsquare F dy))))"
    and "isnan F (fdiv F (fmul F (fmul F c dx) dy)
                         (fsquare F (fadd F (fsquare F dx) (fsquare F dy))))"
    and "isfinite F c \<Longrightarrow> isfinite F (fmul F c (fpi F)) \<Longrightarrow> isfinite F (fmul F c (fneg F (fpi F))) \<Longrightarrow>
           isfinite F (fmul F c (farctan2 F dy dx))"
proof -
  note R = ieee_special_rules [OF F]
  have sq: "iszero F (fsquare F a)" if "iszero F a" for a
    unfolding fsquare_def using R(3) [OF R(1) [OF that] that] .
  have r2: "iszero F (fadd F (fsquare F dx) (fsquare F dy))"
    using R(4) [OF sq [OF dx] sq [OF dy]] .
  have r4: "iszero F (fsquare F (fadd F (fsquare F dx) (fsquare F dy)))"
    using sq [OF r2] .
  show "isnan F (fdiv F (fmul F c dx) (fadd F (fsquare F dx) (fsquare F dy)))"
    using R(6) [OF R(2) [OF dx] r2] .
  show "isnan F (fdiv F (fmul F c dy) (fadd F (fsquare F dx) (fsquare F dy)))"
    using R(6) [OF R(2) [OF dy] r2] .
  show "\<not> isfinite F (fmul F c (flog F (fsqrt F (fadd F (fsquare F dx) (fsquare F dy)))))"
    using R(9) [OF R(8) [OF R(7) [OF r2]]] .
  show "\<not> isfinite F (fmul F c (flog F (fadd F (fsquare F dx) (fsquare F dy))))"
    using R(9) [OF R(8) [OF r2]] .
  show "isnan F (fdiv F (fmul F c (fsub F (fsquare F dx) (fsquare F dy)))
                         (fsquare F (fadd F (fsquare F dx) (fsquare F dy))))"
    using R(6) [OF R(2) [OF R(5) [OF sq [OF dx] sq [OF dy]]] r4] .
  show "isnan F (fdiv F (fmul F (fmul F c dx) dy)
                         (fsquare F (fadd F (fsquare F dx) (fsquare F dy))))"
    using R(6) [OF R(2) [OF dy] r4] .
  show "isfinite F (fmul F c (farctan2 F dy dx))"
    if "isfinite F c" "isfinite F (fmul F c (fpi F))" "isfinite F (fmul F c (fneg F (fpi F)))"
    using R(10) [OF dy dx] R(1) [OF R(3) [OF that(1)]] that(2,3) by auto
qed

text \<open>
  C9 states that at a cell coincident with the singularity each of \<open>u\<close>, \<open>v\<close>, \<open>psi\<close> is an
  infinity or NaN, for every Cartesian point-singularity evaluator. The stream function of
  \<open>get_ss_info\<close> is finite there: for the unit source at the origin and the one-cell grid
  at the origin, \<open>psi = 1/(2 pi) arctan2(0, 0) = 0\<close>.
\<close>

theorem ss_psi_finite_at_singularity_counterexample:
  "map_option exact_isfinite
     (opt_cell (res_psi (get_ss_info exact (Fin 1) (Fin 0) (Fin 0) (single (Fin 0)) (single (Fin 0)))) 0 0) =
   Some True"
  by (simp add: single_mk get_ss_info_mk res_psi_def opt_cell_def)

text \<open>
  C9, amended. For every Cartesian point-singularity evaluator (\<open>get_ss_info\<close>,
  \<open>get_vortex_info\<close>, \<open>get_doublet_info\<close> and the methods of Source and Vortex),
  evaluating on a grid with a point that coincides with the singularity raises no
  exception: the call returns, \<open>u\<close> and \<open>v\<close> at that cell are NaN, \<open>psi\<close> at that cell is
  NaN for the doublet and an infinity or NaN for the two vortex evaluators, while \<open>psi\<close>
  of the source/sink evaluators is finite there, for a finite strength: it is
  \<open>strength/(2 pi)\<close> times the arctangent of two zeros. The point coincides with the
  singularity where the differences \<open>X - x0\<close> and \<open>Y - y0\<close> are zeros; the values rest on
  the IEEE rules for zeros, infinities and NaN, \<open>ieee_special\<close>. Nothing is said of the
  other cells.
\<close>

theorem singular_cell_behaviour:
  assumes "wellformed X" "wellformed Y" "shape X = shape Y"
    and "i < nrows X" "j < ncols X"
    and "ieee_special F"
    and "iszero F (fsub F (cell X i j) xc)" "iszero F (fsub F (cell Y i j) yc)"
  shows "cell_is (isnan F) (res_u (get_ss_info F s xc yc X Y)) i j
       \<and> cell_is (isnan F) (res_v (get_ss_info F s xc yc X Y)) i j
       \<and> cell_is (isnan F) (res_u (Source_run F s xc yc X Y)) i j
       \<and> cell_is (isnan F) (res_v (Source_run F s xc yc X Y)) i j
       \<and> (finite_strength F s \<longrightarrow>
            cell_is (isfinite F) (res_psi (get_ss_info F s xc yc X Y)) i j
          \<and> cell_is (isfinite F) (res_psi (Source_run F s xc yc X Y)) i j)
       \<and> cell_is (isnan F) (res_u (get_vortex_info F s xc yc X Y)) i j
       \<and> cell_is (isnan F) (res_v (get_vortex_info F s xc yc X Y)) i j
       \<and> cell_is (\<lambda>a. \<not> isfinite F a) (res_psi (get_vortex_info F s xc yc X Y)) i j
       \<and> cell_is (isnan F) (res_u (Vortex_run F s xc yc X Y)) i j
       \<and> cell_is (isnan F) (res_v (Vortex_run F s xc yc X Y)) i j
       \<and> cell_is (\<lambda>a. \<not> isfinite F a) (res_psi (Vortex_run F s xc yc X Y)) i j
       \<and> cell_is (isnan F) (res_u (get_doublet_info F s xc yc X Y)) i j
       \<and> cell_is (isnan F) (res_v (get_doublet_info F s xc yc X Y)) i j
       \<and> cell_is (isnan F) (res_psi (get_doublet_info F s xc yc X Y)) i j"
proof -
  note XY = same_shape_mk [OF assms(1-3)]
  note V = singular_values [OF assms(6-8)]
  let ?X = "mk (nrows X) (ncols X) (cell X)" and ?Y = "mk (nrows X) (ncols X) (cell Y)"
  have ss: "cell_is (isnan F) (res_u (get_ss_info F s xc yc ?X ?Y)) i j
       \<and> cell_is (isnan F) (res_v (get_ss_info F s xc yc ?X ?Y)) i j
       \<and> (finite_strength F s \<longrightarrow> cell_is (isfinite F) (res_psi (get_ss_info F s xc yc ?X ?Y)) i j)"
    using assms(4,5) V(1,2,7) [of "fdiv F s (two_pi F)"]
    by (simp add: get_ss_info_mk cell_is_def res_u_def res_v_def res_psi_def finite_strength_def)
  have vi: "cell_is (isnan F) (res_u (get_vortex_info F s xc yc ?X ?Y)) i j
       \<and> cell_is (isnan F) (res_v (get_vortex_info F s xc yc ?X ?Y)) i j
       \<and> cell_is (\<lambda>a. \<not> isfinite F a) (res_psi (get_vortex_info F s xc yc ?X ?Y)) i j"
    using assms(4,5) V(2) [of "fdiv F s (two_pi F)"] V(1) [of "fdiv F (fneg F s) (two_pi F)"]
      V(3) [of "fdiv F s (four_pi F)"]
    by (simp add: get_vortex_info_mk cell_is_def res_u_def res_v_def res_psi_def)
  have vr: "cell_is (isnan F) (res_u (Vortex_run F s xc yc ?X ?Y)) i j
       \<and> cell_is (isnan F) (res_v (Vortex_run F s xc yc ?X ?Y)) i j
       \<and> cell_is (\<lambda>a. \<not> isfinite F a) (res_psi (Vortex_run F s xc yc ?X ?Y)) i j"
    using assms(4,5) V(2) [of "fdiv F s (two_pi F)"] V(1) [of "fdiv F (fneg F s) (two_pi F)"]
      V(4) [of "fdiv F (fneg F s) (four_pi F)"]
    by (simp add: Vortex_run_mk cell_is_def res_u_def res_v_def res_psi_def)
  have db: "cell_is (isnan F) (res_u (get_doublet_info F s xc yc ?X ?Y)) i j
       \<and> cell_is (isnan F) (res_v (get_doublet_info F s xc yc ?X ?Y)) i j
       \<and> cell_is (isnan F) (res_psi (get_doublet_info F s xc yc ?X ?Y)) i j"
    using assms(4,5) V(5) [of "fdiv F (fneg F s) (two_pi F)"]
      V(6) [of "fmul F (fdiv F (fneg F s) (two_pi F)) (fnat F 2)"]
      V(2) [of "fdiv F (fneg F s) (two_pi F)"]
    by (simp add: get_doublet_info_mk cell_is_def res_u_def res_v_def res_psi_def)
  from ss vi vr db show ?thesis
    unfolding Source_run_eq using XY by simp
qed

theorem singular_cell_behaviour_witness:
  "cell_is (isnan exact) (res_u (get_ss_info exact (Fin 1) (Fin 0) (Fin 0)
      (of_rows [[Fin 0, Fin 1]]) (of_rows [[Fin 0, Fin 0]]))) 0 0
   \<and> cell_is (isnan exact) (res_v (get_ss_info exact (Fin 1) (Fin 0) (Fin 0)
      (of_rows [[Fin 0, Fin 1]]) (of_rows [[Fin 0, Fin 0]]))) 0 0
   \<and> cell_is (isfinite exact) (res_psi (get_ss_info exact (Fin 1) (Fin 0) (Fin 0)
      (of_rows [[Fin 0, Fin 1]]) (of_rows [[Fin 0, Fin 0]]))) 0 0
   \<and> cell_is (isfinite exact) (res_psi (Source_run exact (Fin 1) (Fin 0) (Fin 0)
      (of_rows [[Fin 0, Fin 1]]) (of_rows [[Fin 0, Fin 0]]))) 0 0
   \<and> cell_is (\<lambda>a. \<not> isfinite exact a) (res_psi (get_vortex_info exact (Fin 1) (Fin 0) (Fin 0)
      (of_rows [[Fin 0, Fin 1]]) (of_rows [[Fin 0, Fin 0]]))) 0 0
   \<and> cell_is (\<lambda>a. \<not> isfinite exact a) (res_psi (Vortex_run exact (Fin 1) (Fin 0) (Fin 0)
      (of_rows [[Fin 0, Fin 1]]) (of_rows [[Fin 0, Fin 0]]))) 0 0
   \<and> cell_is (isnan exact) (res_u (get_doublet_info exact (Fin 1) (Fin 0) (Fin 0)
      (of_rows [[Fin 0, Fin 1]]) (of_rows [[Fin 0, Fin 0]]))) 0 0
   \<and> cell_is (isnan exact) (res_v (get_doublet_info exact (Fin 1) (Fin 0) (Fin 0)
      (of_rows [[Fin 0, Fin 1]]) (of_rows [[Fin 0, Fin 0]]))) 0 0
   \<and> cell_is (isnan exact) (res_psi (get_doublet_info exact (Fin 1) (Fin 0) (Fin 0)
      (of_rows [[Fin 0, Fin 1]]) (of_rows [[Fin 0, Fin 0]]))) 0 0"
proof -
  have h: "wellformed (of_rows [[Fin 0, Fin 1]])" "wellformed (of_rows [[Fin 0, Fin 0]])"
    "shape (of_rows [[Fin 0, Fin 1]]) = shape (of_rows [[Fin 0, Fin 0]])"
    "0 < nrows (of_rows [[Fin 0, Fin 1]])" "0 < ncols (of_rows [[Fin 0, Fin 1]])"
    "iszero exact (fsub exact (cell (of_rows [[Fin 0, Fin 1]]) 0 0) (Fin 0))"
    "iszero exact (fsub exact (cell (of_rows [[Fin 0, Fin 0]]) 0 0) (Fin 0))"
    "finite_strength exact (Fin 1)"
    by (simp_all add: of_rows_def wellformed_def shape_def cell_def finite_strength_def)
  show ?thesis
    using singular_cell_behaviour [OF h(1-5) ieee_special_exact h(6,7), of "Fin 1"] h(8)
    by simp
qed

subsection \<open>The shapes returned for a freestream\<close>

text \<open>
  The shape of a broadcast result, and the shapes that \<open>get_freestream_info\<close> returns:
  \<open>u\<close> and \<open>v\<close> are made by \<open>ones((N, N))\<close> and \<open>zeros((N, N))\<close>, \<open>psi\<close> by the
  difference of a multiple of \<open>Y\<close> and a multiple of \<open>X\<close>.
\<close>

lemma bdim_commute: "bdim m n = bdim n m"
  by (auto simp add: bdim_def)

lemma broadcast_shape_commute: "broadcast_shape s t = broadcast_shape t s"
  by (simp add: broadcast_shape_def bdim_commute [of "fst s"] bdim_commute [of "snd s"]
      cong: option.case_cong)

lemma broadcast_shape_same: "broadcast_shape s s = Some s"
  by (simp add: broadcast_shape_def bdim_def)

lemma shape_amap [simp]: "shape (amap f A) = shape A"
  by (simp add: amap_def shape_def)

lemma azip_broadcast:
  assumes "broadcast_shape (shape A) (shape B) = Some s"
  shows "\<exists>C. azip f A B = Inr C \<and> shape C = s"
  using assms
  by (simp add: azip_def)

lemma get_freestream_info_shapes:
  assumes "0 \<le> N" "broadcast_shape (shape X) (shape Y) = Some s"
  shows "\<exists>u v psi. get_freestream_info F U al X Y N = Inr (u, v, psi)
           \<and> shape u = (nat N, nat N) \<and> shape v = (nat N, nat N) \<and> shape psi = s"
proof -
  have "broadcast_shape (shape Y) (shape X) = Some s"
    using assms(2) by (simp add: broadcast_shape_commute)
  then have "broadcast_shape (shape (amap (\<lambda>t. fmul F t (fcos F al)) Y))
               (shape (amap (\<lambda>t. fmul F t (fsin F al)) X)) = Some s"
    by simp
  from azip_broadcast [OF this, of "fsub F"]
  obtain C where C: "azip (fsub F) (amap (\<lambda>t. fmul F t (fcos F al)) Y) (amap (\<lambda>t. fmul F t (fsin F al)) X) = Inr C"
      "shape C = s"
    by blast
  show ?thesis
    using assms(1) C
    by (simp add: get_freestream_info_def ones_def zeros_def full_def bindE_def)
qed

text \<open>
  C10 concludes that whenever \<open>X\<close> and \<open>Y\<close> do not have shape \<open>(N, N)\<close> the three returned
  arrays do not all share one shape. The shape of \<open>psi\<close> is not the shape of \<open>X\<close> or of
  \<open>Y\<close> but the shape the two broadcast to: for a row \<open>X\<close> of shape \<open>(1, 2)\<close> and a column
  \<open>Y\<close> of shape \<open>(2, 1)\<close>, a sparse mesh grid, and \<open>N = 2\<close>, neither array has shape
  \<open>(2, 2)\<close> and all three results have.
\<close>

theorem freestream_shapes_counterexample:
  "shape (of_rows [[Fin 0, Fin 1]]) \<noteq> (2, 2)
   \<and> shape (of_rows [[Fin 0], [Fin 1]]) \<noteq> (2, 2)
   \<and> opt_shape (res_u (get_freestream_info exact (Fin 1) (Fin 0)
        (of_rows [[Fin 0, Fin 1]]) (of_rows [[Fin 0], [Fin 1]]) 2)) = Some (2, 2)
   \<and> opt_shape (res_v (get_freestream_info exact (Fin 1) (Fin 0)
        (of_rows [[Fin 0, Fin 1]]) (of_rows [[Fin 0], [Fin 1]]) 2)) = Some (2, 2)
   \<and> opt_shape (res_psi (get_freestream_info exact (Fin 1) (Fin 0)
        (of_rows [[Fin 0, Fin 1]]) (of_rows [[Fin 0], [Fin 1]]) 2)) = Some (2, 2)"
proof -
  have "broadcast_shape (shape (of_rows [[Fin 0, Fin 1]])) (shape (of_rows [[Fin 0], [Fin 1]])) =
          Some (2, 2)"
    by (simp add: broadcast_shape_def bdim_def shape_def of_rows_def)
  from get_freestream_info_shapes [OF _ this, of 2 exact "Fin 1" "Fin 0"]
  show ?thesis
    by (auto simp add: res_u_def res_v_def res_psi_def opt_shape_def shape_def of_rows_def)
qed

text \<open>
  C10, amended. In \<open>get_freestream_info(u_inf, alpha, X, Y, N)\<close> with \<open>N \<ge> 0\<close> the shapes of
  the returned \<open>u\<close> and \<open>v\<close> are \<open>(N, N)\<close>, determined by \<open>N\<close> alone, while the shape of
  \<open>psi\<close> is the shape that \<open>X\<close> and \<open>Y\<close> broadcast to; hence for every call where \<open>X\<close>
  and \<open>Y\<close> broadcast to a shape other than \<open>(N, N)\<close>, as they do when they have one
  common shape other than \<open>(N, N)\<close> (\<open>broadcast_shape_same\<close>), no error is raised and the
  three returned arrays do not all share one shape.
\<close>

theorem freestream_shapes:
  assumes "0 \<le> N" "broadcast_shape (shape X) (shape Y) = Some s" "s \<noteq> (nat N, nat N)"
  shows "opt_shape (res_u (get_freestream_info F u_inf alpha X Y N)) = Some (nat N, nat N)
       \<and> opt_shape (res_v (get_freestream_info F u_inf alpha X Y N)) = Some (nat N, nat N)
       \<and> opt_shape (res_psi (get_freestream_info F u_inf alpha X Y N)) = Some s
       \<and> opt_shape (res_psi (get_freestream_info F u_inf alpha X Y N)) \<noteq>
           opt_shape (res_u (get_freestream_info F u_inf alpha X Y N))"
  using get_freestream_info_shapes [OF assms(1,2), of F u_inf alpha] assms(3)
  by (auto simp add: res_u_def res_v_def res_psi_def opt_shape_def)

theorem freestream_shapes_witness:
  "opt_shape (res_u (get_freestream_info exact (Fin 1) (Fin 0) (single (Fin 3)) (single (Fin 5)) 2)) = Some (2, 2)
   \<and> opt_shape (res_v (get_freestream_info exact (Fin 1) (Fin 0) (single (Fin 3)) (single (Fin 5)) 2)) = Some (2, 2)
   \<and> opt_shape (res_psi (get_freestream_info exact (Fin 1) (Fin 0) (single (Fin 3)) (single (Fin 5)) 2)) = Some (1, 1)
   \<and> opt_shape (res_psi (get_freestream_info exact (Fin 1) (Fin 0) (single (Fin 3)) (single (Fin 5)) 2)) \<noteq>
       opt_shape (res_u (get_freestream_info exact (Fin 1) (Fin 0) (single (Fin 3)) (single (Fin 5)) 2))"
  using freestream_shapes [where X = "single (Fin 3)" and Y = "single (Fin 5)" and N = 2
      and s = "(1, 1)" and F = exact and u_inf = "Fin 1" and alpha = "Fin 0"]
  by (simp add: broadcast_shape_same)

end
